theory Spec2Isabelle
  imports Main "HOL-Library.Word"
begin

section \<open>JavaScript strings\<close>

text \<open>
  A JavaScript string is a sequence of UTF-16 code units; \<open>length\<close> counts code units
  and \<open>trim\<close> removes code units. String literals of the source are ASCII and are
  written \<open>js ''...''\<close>.
\<close>

type_synonym jschar = "16 word"
type_synonym jsstring = "jschar list"

definition js :: "string \<Rightarrow> jsstring" where
  "js s = map of_char s"

text \<open>
  The code units that \<open>String.prototype.trim\<close> strips: ECMAScript WhiteSpace (TAB, VT,
  FF, SP, NBSP, ZWNBSP and the Unicode category Zs) and LineTerminator (LF, CR, LS, PS).
\<close>

definition isWhiteSpace :: "jschar \<Rightarrow> bool" where
  "isWhiteSpace c \<longleftrightarrow>
     c \<in> set [0x0009, 0x000A, 0x000B, 0x000C, 0x000D, 0x0020, 0x00A0, 0x1680,
              0x2028, 0x2029, 0x202F, 0x205F, 0x3000, 0xFEFF]
     \<or> (0x2000 \<le> c \<and> c \<le> 0x200A)"

definition trim :: "jsstring \<Rightarrow> jsstring" where
  "trim s = rev (dropWhile isWhiteSpace (rev (dropWhile isWhiteSpace s)))"

text \<open>The regular expression class \<open>\d\<close> (no unicode flag): the ASCII digits.\<close>

definition isDigit :: "jschar \<Rightarrow> bool" where
  "isDigit c \<longleftrightarrow> 0x30 \<le> c \<and> c \<le> 0x39"

text \<open>\<open>s.match(/^\d+$/)\<close> is non-null exactly for a non-empty string of digits.\<close>

definition matchesDigits :: "jsstring \<Rightarrow> bool" where
  "matchesDigits s \<longleftrightarrow> s \<noteq> [] \<and> list_all isDigit s"

section \<open>Numbers: parseInt on digit strings\<close>

definition decimalValue :: "jsstring \<Rightarrow> nat" where
  "decimalValue s = foldl (\<lambda>acc c. 10 * acc + unat (c - 0x30)) 0 s"

fun bitLength :: "nat \<Rightarrow> nat" where
  "bitLength n = (if n = 0 then 0 else Suc (bitLength (n div 2)))"

declare bitLength.simps [simp del]

text \<open>
  The Number value of a natural number below \<open>2 ^ 1024\<close>: the nearest IEEE 754
  binary64 value, ties to the even significand. A natural number of at most 53 bits is
  its own Number value; a longer one keeps its leading 53 bits, rounded.
\<close>

definition toDouble :: "nat \<Rightarrow> nat" where
  "toDouble n =
     (if bitLength n \<le> 53 then n
      else let e = bitLength n - 53;
               q = n div 2 ^ e;
               r = n mod 2 ^ e;
               half = 2 ^ (e - 1)
           in if r < half \<or> (r = half \<and> even q) then q * 2 ^ e else (q + 1) * 2 ^ e)"

text \<open>
  \<open>parseInt(s)\<close> with no radix, for \<open>s\<close> a non-empty string of at most 20 decimal
  digits: the Number value of the integer the digits denote. The only call of the source,
  in \<open>validateDiscordUserId\<close>, is behind the \<open>/^\d+$/\<close> match and the length check
  (17 to 19 digits).
\<close>

definition parseInt :: "jsstring \<Rightarrow> nat" where
  "parseInt s = toDouble (decimalValue s)"

section \<open>Validation utilities\<close>

text \<open>
  Each validator returns an error message or \<open>null\<close> (\<open>None\<close>). The arguments are
  the form's string states, so \<open>!id\<close> is the test for the empty string.
\<close>

definition validateDiscordUserId :: "jsstring \<Rightarrow> jsstring option" where
  "validateDiscordUserId id' =
     (if id' = [] \<or> trim id' = [] then Some (js ''Discord User ID is required'')
      else let trimmedId = trim id' in
        if \<not> matchesDigits trimmedId
          then Some (js ''Discord User ID must contain only numbers'')
        else if length trimmedId < 17 \<or> length trimmedId > 19
          then Some (js ''Discord User ID must be 17-19 digits long'')
        else if parseInt trimmedId < 100000000000000000
          then Some (js ''Invalid Discord User ID - please check your ID'')
        else None)"

definition validateUsername :: "jsstring \<Rightarrow> jsstring option" where
  "validateUsername username' =
     (if username' = [] \<or> trim username' = [] then Some (js ''Username is required'')
      else let trimmed = trim username' in
        if length trimmed < 2
          then Some (js ''Username must be at least 2 characters long'')
        else if length trimmed > 32
          then Some (js ''Username must be no more than 32 characters long'')
        else None)"

definition validatePassword :: "jsstring \<Rightarrow> jsstring option" where
  "validatePassword password' =
     (if password' = [] then Some (js ''Password is required'')
      else if length password' < 6
        then Some (js ''Password must be at least 6 characters long'')
      else None)"

section \<open>JavaScript values\<close>

text \<open>
  The values that cross the HTTP boundary are JSON values; property reads add
  \<open>undefined\<close>. Numbers are restricted to the integers that \<open>String\<close> prints in
  plain decimal (magnitude below \<open>10 ^ 21\<close>). An object is its list of properties; a
  property read takes the first binding of the key.
\<close>

datatype jsval =
    JUndefined
  | JNull
  | JBool bool
  | JNum int
  | JStr jsstring
  | JArr "jsval list"
  | JObj "(jsstring \<times> jsval) list"

fun truthy :: "jsval \<Rightarrow> bool" where
  "truthy JUndefined = False"
| "truthy JNull = False"
| "truthy (JBool b) = b"
| "truthy (JNum n) = (n \<noteq> 0)"
| "truthy (JStr s) = (s \<noteq> [])"
| "truthy (JArr xs) = True"
| "truthy (JObj kvs) = True"

fun isNullish :: "jsval \<Rightarrow> bool" where
  "isNullish JUndefined = True"
| "isNullish JNull = True"
| "isNullish v = False"

fun isArray :: "jsval \<Rightarrow> bool" where
  "isArray (JArr xs) = True"
| "isArray v = False"

text \<open>
  \<open>getProp v k\<close> reads property \<open>k\<close> of a value that is neither \<open>null\<close> nor
  \<open>undefined\<close>. The source reads only \<open>data\<close>, \<open>detail\<close>, \<open>msg\<close> and
  \<open>access_token\<close>, which no array, string, number or boolean has.
\<close>

definition getProp :: "jsval \<Rightarrow> jsstring \<Rightarrow> jsval" where
  "getProp v k =
     (case v of
        JObj kvs \<Rightarrow> (case map_of kvs k of Some x \<Rightarrow> x | None \<Rightarrow> JUndefined)
      | _ \<Rightarrow> JUndefined)"

text \<open>Optional chaining \<open>v?.k\<close>.\<close>

definition optChain :: "jsval \<Rightarrow> jsstring \<Rightarrow> jsval" where
  "optChain v k = (if isNullish v then JUndefined else getProp v k)"

text \<open>What a \<open>catch\<close> clause of the source can receive.\<close>

datatype js_error =
    AxiosError jsval  \<comment> \<open>a rejected request; the argument is the error's \<open>response\<close> property\<close>
  | TypeError         \<comment> \<open>a property read of \<open>null\<close> or \<open>undefined\<close>\<close>

text \<open>The plain property read \<open>v.k\<close>, which throws on \<open>null\<close> and \<open>undefined\<close>.\<close>

definition readProp :: "jsval \<Rightarrow> jsstring \<Rightarrow> js_error + jsval" where
  "readProp v k = (if isNullish v then Inl TypeError else Inr (getProp v k))"

fun error_response :: "js_error \<Rightarrow> jsval" where
  "error_response (AxiosError r) = r"
| "error_response TypeError = JUndefined"

subsection \<open>Conversion to string\<close>

fun natDigits :: "nat \<Rightarrow> jsstring" where
  "natDigits n =
     (if n < 10 then [of_nat (48 + n)] else natDigits (n div 10) @ [of_nat (48 + n mod 10)])"

declare natDigits.simps [simp del]

definition intToString :: "int \<Rightarrow> jsstring" where
  "intToString i = (if i < 0 then 0x2D # natDigits (nat (- i)) else natDigits (nat i))"

fun joinStrings :: "jsstring \<Rightarrow> jsstring list \<Rightarrow> jsstring" where
  "joinStrings sep [] = []"
| "joinStrings sep [x] = x"
| "joinStrings sep (x # y # ys) = x @ sep @ joinStrings sep (y # ys)"

text \<open>
  \<open>String(v)\<close>, which template literals and \<open>localStorage.setItem\<close> apply. An array
  joins its elements with a comma, \<open>null\<close> and \<open>undefined\<close> elements as the empty
  string.
\<close>

primrec ToString :: "jsval \<Rightarrow> jsstring" where
  "ToString JUndefined = js ''undefined''"
| "ToString JNull = js ''null''"
| "ToString (JBool b) = (if b then js ''true'' else js ''false'')"
| "ToString (JNum n) = intToString n"
| "ToString (JStr s) = s"
| "ToString (JArr xs) =
     joinStrings (js '','')
       (map2 (\<lambda>x s. if isNullish x then [] else s) xs (map ToString xs))"
| "ToString (JObj kvs) = js ''[object Object]''"

text \<open>\<open>xs.join(sep)\<close> on an array of values.\<close>

definition join :: "jsval list \<Rightarrow> jsstring \<Rightarrow> jsstring" where
  "join xs sep = joinStrings sep (map (\<lambda>x. if isNullish x then [] else ToString x) xs)"

section \<open>HTTP through axios\<close>

datatype http_method = GET | POST | PUT | DELETE

record request =
  req_method :: http_method
  req_url :: jsstring
  req_params :: "(jsstring \<times> jsval) list"
  req_data :: jsval
  req_headers :: "jsstring \<rightharpoonup> jsstring"

text \<open>
  The environment of the page: the build-time \<open>REACT_APP_BACKEND_URL\<close> and the
  backend, which settles the \<open>n\<close>-th request of the session either with a response
  object (\<open>Inr\<close>) or by rejecting (\<open>Inl\<close>).
\<close>

record env =
  BACKEND_URL :: jsval
  server :: "nat \<Rightarrow> request \<Rightarrow> js_error + jsval"

definition API :: "env \<Rightarrow> jsstring" where
  "API e = ToString (BACKEND_URL e) @ js ''/api''"

text \<open>
  The state shared by the components: the \<open>AuthProvider\<close> state variables, the
  browser's \<open>localStorage\<close>, \<open>axios.defaults.headers.common\<close>, and the requests sent so
  far, each with the common headers it carried.
\<close>

record app =
  user :: jsval
  token :: jsval
  loading :: bool
  localStorage :: "jsstring \<rightharpoonup> jsstring"
  axios_common :: "jsstring \<rightharpoonup> jsstring"
  sent :: "request list"

definition axios :: "env \<Rightarrow> http_method \<Rightarrow> jsstring \<Rightarrow> (jsstring \<times> jsval) list \<Rightarrow> jsval \<Rightarrow> app
    \<Rightarrow> (js_error + jsval) \<times> app" where
  "axios e m u ps d st =
     (let req = \<lparr>req_method = m, req_url = u, req_params = ps, req_data = d,
                 req_headers = axios_common st\<rparr>
      in (server e (length (sent st)) req, st\<lparr>sent := sent st @ [req]\<rparr>))"

section \<open>AuthProvider\<close>

definition logout :: "app \<Rightarrow> app" where
  "logout st =
     st\<lparr>localStorage := (localStorage st)(js ''token'' := None),
        axios_common := (axios_common st)(js ''Authorization'' := None),
        token := JNull,
        user := JNull\<rparr>"

definition fetchUser :: "env \<Rightarrow> app \<Rightarrow> app" where
  "fetchUser e st =
     (let (out, st1) = axios e GET (API e @ js ''/auth/me'') [] JUndefined st;
          st2 = (case out of
                   Inl err \<Rightarrow> logout st1
                 | Inr response \<Rightarrow>
                     (case readProp response (js ''data'') of
                        Inl err \<Rightarrow> logout st1
                      | Inr d \<Rightarrow> st1\<lparr>user := d\<rparr>))
      in st2\<lparr>loading := False\<rparr>)"

text \<open>The result object of \<open>login\<close> and \<open>register\<close>; \<open>error\<close> is absent on success.\<close>

record result =
  success :: bool
  error :: jsval

text \<open>The body of the \<open>try\<close> block after a resolved request, shared by both operations.\<close>

definition storeToken :: "jsval \<Rightarrow> app \<Rightarrow> js_error + app" where
  "storeToken response st =
     (case readProp response (js ''data'') of
        Inl err \<Rightarrow> Inl err
      | Inr d \<Rightarrow>
          (case readProp d (js ''access_token'') of
             Inl err \<Rightarrow> Inl err
           | Inr access_token \<Rightarrow>
               Inr (st\<lparr>localStorage := (localStorage st)(js ''token'' \<mapsto> ToString access_token),
                       axios_common := (axios_common st)
                         (js ''Authorization'' \<mapsto> js ''Bearer '' @ ToString access_token),
                       token := access_token\<rparr>)))"

text \<open>\<open>detail.map(e => e.msg)\<close>: reading \<open>msg\<close> of a \<open>null\<close> element throws.\<close>

fun mapMsg :: "jsval list \<Rightarrow> js_error + jsval list" where
  "mapMsg [] = Inr []"
| "mapMsg (x # xs) =
     (case readProp x (js ''msg'') of
        Inl err \<Rightarrow> Inl err
      | Inr m \<Rightarrow> (case mapMsg xs of Inl err \<Rightarrow> Inl err | Inr ms \<Rightarrow> Inr (m # ms)))"

text \<open>
  The \<open>catch\<close> block of the current revision:
  \<open>detail || (detail && Array.isArray(detail) ? detail.map(e => e.msg).join(', ') : fallback)\<close>,
  where the condition of the conditional expression is \<open>detail && Array.isArray(detail)\<close>.
\<close>

definition errorMessage :: "jsstring \<Rightarrow> js_error \<Rightarrow> js_error + jsval" where
  "errorMessage fallback err =
     (let detail = optChain (optChain (error_response err) (js ''data'')) (js ''detail'') in
      if truthy detail then Inr detail
      else if truthy (if truthy detail then JBool (isArray detail) else detail)
        then (case detail of
                JArr xs \<Rightarrow> (case mapMsg xs of
                              Inl e \<Rightarrow> Inl e
                            | Inr ms \<Rightarrow> Inr (JStr (join ms (js '', ''))))
              | _ \<Rightarrow> Inl TypeError)
        else Inr (JStr fallback))"

text \<open>The \<open>catch\<close> block of the older revision: \<open>detail || fallback\<close>.\<close>

definition errorMessage_old :: "jsstring \<Rightarrow> js_error \<Rightarrow> jsval" where
  "errorMessage_old fallback err =
     (let detail = optChain (optChain (error_response err) (js ''data'')) (js ''detail'') in
      if truthy detail then detail else JStr fallback)"

text \<open>
  \<open>login\<close> and \<open>register\<close> return the promise's settlement: \<open>Inr\<close> the result
  object, \<open>Inl\<close> an error thrown out of the \<open>catch\<close> block.
\<close>

definition login :: "env \<Rightarrow> jsstring \<Rightarrow> jsstring \<Rightarrow> app \<Rightarrow> (js_error + result) \<times> app" where
  "login e discordUserId password st =
     (let (out, st1) = axios e POST (API e @ js ''/auth/login'') []
                         (JObj [(js ''discord_user_id'', JStr discordUserId),
                                (js ''password'', JStr password)]) st;
          tried = (case out of Inl err \<Rightarrow> Inl err | Inr response \<Rightarrow> storeToken response st1)
      in case tried of
           Inr st2 \<Rightarrow> (Inr \<lparr>success = True, error = JUndefined\<rparr>, st2)
         | Inl err \<Rightarrow>
             (case errorMessage (js ''Login failed'') err of
                Inl thrown \<Rightarrow> (Inl thrown, st1)
              | Inr msg \<Rightarrow> (Inr \<lparr>success = False, error = msg\<rparr>, st1)))"

definition register :: "env \<Rightarrow> jsstring \<Rightarrow> jsstring \<Rightarrow> jsstring \<Rightarrow> app
    \<Rightarrow> (js_error + result) \<times> app" where
  "register e discordUserId username password st =
     (let (out, st1) = axios e POST (API e @ js ''/auth/register'') []
                         (JObj [(js ''discord_user_id'', JStr discordUserId),
                                (js ''username'', JStr username),
                                (js ''password'', JStr password)]) st;
          tried = (case out of Inl err \<Rightarrow> Inl err | Inr response \<Rightarrow> storeToken response st1)
      in case tried of
           Inr st2 \<Rightarrow> (Inr \<lparr>success = True, error = JUndefined\<rparr>, st2)
         | Inl err \<Rightarrow>
             (case errorMessage (js ''Registration failed'') err of
                Inl thrown \<Rightarrow> (Inl thrown, st1)
              | Inr msg \<Rightarrow> (Inr \<lparr>success = False, error = msg\<rparr>, st1)))"

text \<open>The older revision of \<open>login\<close>, kept in the same file.\<close>

definition login_old :: "env \<Rightarrow> jsstring \<Rightarrow> jsstring \<Rightarrow> app \<Rightarrow> (js_error + result) \<times> app" where
  "login_old e discordUserId password st =
     (let (out, st1) = axios e POST (API e @ js ''/auth/login'') []
                         (JObj [(js ''discord_user_id'', JStr discordUserId),
                                (js ''password'', JStr password)]) st;
          tried = (case out of Inl err \<Rightarrow> Inl err | Inr response \<Rightarrow> storeToken response st1)
      in case tried of
           Inr st2 \<Rightarrow> (Inr \<lparr>success = True, error = JUndefined\<rparr>, st2)
         | Inl err \<Rightarrow>
             (Inr \<lparr>success = False, error = errorMessage_old (js ''Login failed'') err\<rparr>, st1))"

text \<open>
  The effect on \<open>[token]\<close>: it runs after the first render and after every change of the
  \<open>token\<close> state.
\<close>

definition tokenEffect :: "env \<Rightarrow> app \<Rightarrow> app" where
  "tokenEffect e st =
     (if truthy (token st)
        then fetchUser e
               (st\<lparr>axios_common := (axios_common st)
                      (js ''Authorization'' \<mapsto> js ''Bearer '' @ ToString (token st))\<rparr>)
        else st\<lparr>loading := False\<rparr>)"

text \<open>
  The first render of \<open>AuthProvider\<close> over a given \<open>localStorage\<close>: the module has set
  the common \<open>Content-Type\<close> header over the common headers the axios library starts
  with (\<open>library_common\<close>, its \<open>Accept\<close> default), \<open>user\<close> is \<open>null\<close>, \<open>token\<close> is
  \<open>localStorage.getItem('token')\<close> and \<open>loading\<close> is \<open>true\<close>.
\<close>

definition initialApp :: "(jsstring \<rightharpoonup> jsstring) \<Rightarrow> (jsstring \<rightharpoonup> jsstring) \<Rightarrow> app" where
  "initialApp library_common storage =
     \<lparr>user = JNull,
      token = (case storage (js ''token'') of None \<Rightarrow> JNull | Some t \<Rightarrow> JStr t),
      loading = True,
      localStorage = storage,
      axios_common = library_common(js ''Content-Type'' \<mapsto> js ''application/json''),
      sent = []\<rparr>"

definition startup :: "env \<Rightarrow> (jsstring \<rightharpoonup> jsstring) \<Rightarrow> (jsstring \<rightharpoonup> jsstring) \<Rightarrow> app" where
  "startup e library_common storage = tokenEffect e (initialApp library_common storage)"

section \<open>AppRouter\<close>

datatype screen = LoadingScreen | DashboardScreen | AuthScreen

definition AppRouter :: "app \<Rightarrow> screen" where
  "AppRouter st =
     (if loading st then LoadingScreen
      else if truthy (user st) then DashboardScreen else AuthScreen)"

section \<open>The Auth form\<close>

record auth_form =
  isLogin :: bool
  discordUserId :: jsstring
  username :: jsstring
  password :: jsstring
  showPassword :: bool
  form_error :: jsval
  fieldErrors :: "(jsstring \<times> jsstring) list"
  form_loading :: bool

text \<open>\<open>if (msg) errors.key = msg\<close>: a message is recorded when it is a non-empty string.\<close>

definition addError :: "jsstring \<Rightarrow> jsstring option \<Rightarrow> (jsstring \<times> jsstring) list
    \<Rightarrow> (jsstring \<times> jsstring) list" where
  "addError key msg errors =
     (case msg of
        None \<Rightarrow> errors
      | Some m \<Rightarrow> if m \<noteq> [] then errors @ [(key, m)] else errors)"

definition validateForm :: "auth_form \<Rightarrow> bool \<times> auth_form" where
  "validateForm f =
     (let errors = [];
          errors = addError (js ''discordUserId'') (validateDiscordUserId (discordUserId f)) errors;
          errors = (if \<not> isLogin f
                      then addError (js ''username'') (validateUsername (username f)) errors
                      else errors);
          errors = addError (js ''password'') (validatePassword (password f)) errors
      in (length errors = 0, f\<lparr>fieldErrors := errors\<rparr>))"

text \<open>
  \<open>handleSubmit\<close> returns the settlement of its promise (\<open>Inl\<close> when \<open>login\<close> or
  \<open>register\<close> rejects), the form and the shared state.
\<close>

definition handleSubmit :: "env \<Rightarrow> auth_form \<Rightarrow> app \<Rightarrow> (js_error + unit) \<times> auth_form \<times> app" where
  "handleSubmit e f st =
     (let f1 = f\<lparr>form_error := JStr [], fieldErrors := []\<rparr>;
          (ok, f2) = validateForm f1
      in if \<not> ok then (Inr (), f2, st)
         else
           let f3 = f2\<lparr>form_loading := True\<rparr>;
               (settled, st') =
                 (if isLogin f3 then login e (trim (discordUserId f3)) (password f3) st
                  else register e (trim (discordUserId f3)) (trim (username f3)) (password f3) st)
           in case settled of
                Inl thrown \<Rightarrow> (Inl thrown, f3, st')
              | Inr res \<Rightarrow>
                  let f4 = (if \<not> success res then f3\<lparr>form_error := error res\<rparr> else f3)
                  in (Inr (), f4\<lparr>form_loading := False\<rparr>, st'))"

section \<open>The Dashboard\<close>

record dashboard =
  dash_notes :: jsval
  searchTerm :: jsstring
  dash_loading :: bool
  searchLoading :: bool
  editingNote :: jsval
  editContent :: jsstring

text \<open>
  \<open>fetchNotes(search = '')\<close>: the argument is \<open>None\<close> for the calls without one. The
  failure of the request is logged and otherwise dropped.
\<close>

definition fetchNotes :: "env \<Rightarrow> jsstring option \<Rightarrow> dashboard \<Rightarrow> app \<Rightarrow> dashboard \<times> app" where
  "fetchNotes e arg d st =
     (let search = (case arg of None \<Rightarrow> [] | Some s \<Rightarrow> s);
          d1 = d\<lparr>dash_loading := (search = []), searchLoading := (search \<noteq> [])\<rparr>;
          params = (if search \<noteq> [] then [(js ''search'', JStr search)] else []);
          (out, st1) = axios e GET (API e @ js ''/notes'') params JUndefined st;
          d2 = (case out of
                  Inl err \<Rightarrow> d1
                | Inr response \<Rightarrow>
                    (case readProp response (js ''data'') of
                       Inl err \<Rightarrow> d1
                     | Inr ns \<Rightarrow> d1\<lparr>dash_notes := ns\<rparr>))
      in (d2\<lparr>dash_loading := False, searchLoading := False\<rparr>, st1))"

definition handleSearch :: "env \<Rightarrow> dashboard \<Rightarrow> app \<Rightarrow> dashboard \<times> app" where
  "handleSearch e d st = fetchNotes e (Some (searchTerm d)) d st"

definition handleSaveEdit :: "env \<Rightarrow> jsval \<Rightarrow> dashboard \<Rightarrow> app \<Rightarrow> dashboard \<times> app" where
  "handleSaveEdit e noteId d st =
     (let (out, st1) = axios e PUT (API e @ js ''/notes/'' @ ToString noteId) []
                         (JObj [(js ''content'', JStr (editContent d))]) st
      in case out of
           Inl err \<Rightarrow> (d, st1)
         | Inr response \<Rightarrow> fetchNotes e (Some (searchTerm d)) (d\<lparr>editingNote := JNull\<rparr>) st1)"

text \<open>\<open>handleDelete\<close>; \<open>confirmed\<close> is the answer to \<open>window.confirm\<close>.\<close>

definition handleDelete :: "env \<Rightarrow> jsval \<Rightarrow> bool \<Rightarrow> dashboard \<Rightarrow> app \<Rightarrow> dashboard \<times> app" where
  "handleDelete e noteId confirmed d st =
     (if confirmed
        then let (out, st1) = axios e DELETE (API e @ js ''/notes/'' @ ToString noteId) []
                                JUndefined st
             in case out of
                  Inl err \<Rightarrow> (d, st1)
                | Inr response \<Rightarrow> fetchNotes e (Some (searchTerm d)) d st1
        else (d, st))"

text \<open>The requests the Dashboard sends, as one step function.\<close>

datatype dashboard_action =
    Search
  | Clear
  | SaveEdit jsval
  | Delete jsval bool

fun dashboardStep :: "env \<Rightarrow> dashboard_action \<Rightarrow> dashboard \<times> app \<Rightarrow> dashboard \<times> app" where
  "dashboardStep e Search (d, st) = handleSearch e d st"
| "dashboardStep e Clear (d, st) = fetchNotes e None (d\<lparr>searchTerm := []\<rparr>) st"
| "dashboardStep e (SaveEdit noteId) (d, st) = handleSaveEdit e noteId d st"
| "dashboardStep e (Delete noteId confirmed) (d, st) = handleDelete e noteId confirmed d st"

fun dashboardRun :: "env \<Rightarrow> dashboard_action list \<Rightarrow> dashboard \<times> app \<Rightarrow> dashboard \<times> app" where
  "dashboardRun e [] s = s"
| "dashboardRun e (a # as) s = dashboardRun e as (dashboardStep e a s)"

text \<open>
  \<open>sendsOnly st st'\<close>: \<open>st'\<close> is \<open>st\<close> after some requests were sent, each with the
  common headers of \<open>st\<close>, and nothing else of the state changed.
\<close>

definition sendsOnly :: "app \<Rightarrow> app \<Rightarrow> bool" where
  "sendsOnly st st' \<longleftrightarrow>
     axios_common st' = axios_common st \<and> localStorage st' = localStorage st
     \<and> token st' = token st \<and> user st' = user st \<and> loading st' = loading st
     \<and> (\<exists>new. sent st' = sent st @ new \<and> list_all (\<lambda>r. req_headers r = axios_common st) new)"

section \<open>The bot surface of the backend\<close>

text \<open>
  The backend is not part of the sources at hand; only its endpoints are documented. The
  note store and the two delete operations follow the specification.
\<close>

datatype api_error = Conflict | Unauthorized | Forbidden | NotFound | Validation

record note_record =
  owner_external_id :: jsstring
  content :: jsstring

type_synonym note_store = "jsstring \<rightharpoonup> note_record"

text \<open>
  Modelled from the spec: the backend handler of the authenticated \<open>DELETE /notes/{id}\<close>,
  \<open>delete_note(account, note_id)\<close>: fails with \<open>NotFound\<close> if no note has the id, with
  \<open>Forbidden\<close> if the note's \<open>owner_external_id\<close> is not the account's
  \<open>external_id\<close>; otherwise removes the note.
\<close>

definition delete_note :: "jsstring \<Rightarrow> jsstring \<Rightarrow> note_store \<Rightarrow> api_error + note_store" where
  "delete_note account_external_id note_id store =
     (case store note_id of
        None \<Rightarrow> Inl NotFound
      | Some n \<Rightarrow>
          if owner_external_id n \<noteq> account_external_id then Inl Forbidden
          else Inr (store(note_id := None)))"

text \<open>
  Modelled from the spec: the backend handler of the unauthenticated
  \<open>DELETE /bot/notes/{id}\<close>, \<open>bot_delete_note(note_id)\<close>: deletes by id with no
  ownership check and takes no caller identity; an unknown id is the taxonomy's
  \<open>NotFound\<close>.
\<close>

definition bot_delete_note :: "jsstring \<Rightarrow> note_store \<Rightarrow> api_error + note_store" where
  "bot_delete_note note_id store =
     (case store note_id of
        None \<Rightarrow> Inl NotFound
      | Some n \<Rightarrow> Inr (store(note_id := None)))"

section \<open>Properties of the validators\<close>

text \<open>
  C6: \<open>validateUsername\<close> returns \<open>null\<close> for exactly the inputs whose trimmed value
  is non-empty and has between 2 and 32 code units inclusive; every other input, with a
  shorter or longer trimmed value, gets an error message.
\<close>

theorem validateUsername_null_iff:
  "validateUsername u = None \<longleftrightarrow>
     trim u \<noteq> [] \<and> 2 \<le> length (trim u) \<and> length (trim u) \<le> 32"
  by (auto simp: validateUsername_def Let_def trim_def)

section \<open>The validator on a 17-digit id\<close>

lemma bitLength_17_nines: "bitLength 99999999999999999 = 57"
  by (simp add: bitLength.simps)

lemma decimalValue_17_nines: "decimalValue (js ''99999999999999999'') = 99999999999999999"
  by (simp add: decimalValue_def js_def)

lemma toDouble_17_nines: "toDouble 99999999999999999 = 100000000000000000"
  by (simp add: toDouble_def bitLength_17_nines Let_def)

lemma trim_17_nines: "trim (js ''99999999999999999'') = js ''99999999999999999''"
  by (simp add: trim_def js_def isWhiteSpace_def)

subsection \<open>Which ids the numeric check accepts\<close>

lemma bitLength_less: "n < 2 ^ k \<Longrightarrow> bitLength n \<le> k"
proof (induction k arbitrary: n)
  case 0
  then show ?case by (simp add: bitLength.simps)
next
  case (Suc k)
  show ?case
  proof (cases "n = 0")
    case True
    then show ?thesis by (simp add: bitLength.simps)
  next
    case False
    from Suc.prems have "n div 2 < 2 ^ k" by simp
    then have "bitLength (n div 2) \<le> k" by (rule Suc.IH)
    with False show ?thesis by (subst bitLength.simps) simp
  qed
qed

lemma bitLength_greater: "2 ^ k \<le> n \<Longrightarrow> k < bitLength n"
proof (induction k arbitrary: n)
  case 0
  then show ?case by (subst bitLength.simps) simp
next
  case (Suc k)
  then have "2 ^ k \<le> n div 2" by simp
  then have "k < bitLength (n div 2)" by (rule Suc.IH)
  moreover have "(0::nat) < 2 ^ Suc k" by simp
  with Suc.prems have "n \<noteq> 0" by linarith
  ultimately show ?case by (subst bitLength.simps) simp
qed

lemma bitLength_eq: "2 ^ k \<le> n \<Longrightarrow> n < 2 ^ Suc k \<Longrightarrow> bitLength n = Suc k"
  using bitLength_less [of n "Suc k"] bitLength_greater [of k n] by simp

lemma toDouble_small: "n < 2 ^ 53 \<Longrightarrow> toDouble n = n"
  using bitLength_less [of n 53] by (simp add: toDouble_def)

lemma toDouble_57:
  assumes "2 ^ 56 \<le> n" and "n < 2 ^ 57"
  shows "toDouble n =
           (if n mod 16 < 8 \<or> (n mod 16 = 8 \<and> even (n div 16)) then n div 16 * 16
            else (n div 16 + 1) * 16)"
proof -
  have "bitLength n = 57"
    using bitLength_eq [of 56 n] assms by simp
  then show ?thesis
    by (simp add: toDouble_def Let_def)
qed

lemma toDouble_bounds:
  assumes "2 ^ k \<le> n" and "n < 2 ^ Suc k" and "53 \<le> k"
  shows "2 ^ k \<le> toDouble n \<and> toDouble n \<le> 2 ^ Suc k"
proof -
  have bl: "bitLength n = Suc k"
    using assms by (simp add: bitLength_eq)
  define e where "e = Suc k - 53"
  have k: "Suc k = 53 + e" "k = 52 + e"
    using assms by (simp_all add: e_def)
  define q where "q = n div 2 ^ e"
  have "n < 2 ^ 53 * 2 ^ e"
    using assms k by (simp add: power_add)
  then have qu: "q < 2 ^ 53"
    unfolding q_def by (simp add: less_mult_imp_div_less)
  have "2 ^ 52 * 2 ^ e \<le> n"
    using assms k by (simp add: power_add)
  then have "2 ^ 52 * 2 ^ e div 2 ^ e \<le> n div 2 ^ e"
    by (rule div_le_mono)
  then have ql: "2 ^ 52 \<le> q"
    unfolding q_def by simp
  have lo: "2 ^ k \<le> q * 2 ^ e"
    using ql k by (simp add: power_add)
  have "(q + 1) * 2 ^ e \<le> 2 ^ 53 * 2 ^ e"
    using qu by (intro mult_right_mono) simp_all
  then have hi: "(q + 1) * 2 ^ e \<le> 2 ^ Suc k"
    using k by (simp add: power_add)
  have "toDouble n = q * 2 ^ e \<or> toDouble n = (q + 1) * 2 ^ e"
    using bl assms by (auto simp: toDouble_def Let_def e_def q_def)
  moreover have "q * 2 ^ e \<le> (q + 1) * 2 ^ e" by simp
  ultimately show ?thesis
    using lo hi by auto
qed

lemma bitLength_upper: "n < 2 ^ bitLength n"
proof (induction n rule: bitLength.induct)
  case (1 n)
  show ?case
  proof (cases "n = 0")
    case True
    then show ?thesis by simp
  next
    case False
    with 1 have "n div 2 < 2 ^ bitLength (n div 2)" by simp
    then have "n < 2 * 2 ^ bitLength (n div 2)" by linarith
    with False show ?thesis by (subst bitLength.simps) simp
  qed
qed

lemma bitLength_lower: "0 < n \<Longrightarrow> 2 ^ (bitLength n - 1) \<le> n"
proof (induction n rule: bitLength.induct)
  case (1 n)
  show ?case
  proof (cases "n div 2 = 0")
    case True
    with 1 have "n = 1" by (simp add: div_eq_0_iff) 
    then show ?thesis by (simp add: bitLength.simps)
  next
    case False
    with 1 have ih: "2 ^ (bitLength (n div 2) - 1) \<le> n div 2" by simp
    from False have "bitLength (n div 2) \<noteq> 0" by (subst bitLength.simps) simp
    then have "(2::nat) ^ bitLength (n div 2) = 2 * 2 ^ (bitLength (n div 2) - 1)"
      by (cases "bitLength (n div 2)") simp_all
    with ih have "2 ^ bitLength (n div 2) \<le> n" by linarith
    with 1 show ?thesis by (subst bitLength.simps) simp
  qed
qed

lemma bitLength_window:
  assumes "0 < (n::nat)"
  shows "\<exists>k. 2 ^ k \<le> n \<and> n < 2 ^ Suc k"
proof -
  from assms have "bitLength n \<noteq> 0" by (subst bitLength.simps) simp
  then obtain k where k: "bitLength n = Suc k" by (cases "bitLength n") simp_all
  from bitLength_lower [OF assms] k have "2 ^ k \<le> n" by simp
  moreover from bitLength_upper [of n] k have "n < 2 ^ Suc k" by simp
  ultimately show ?thesis by blast
qed


lemma pow2_mono_nat: "a \<le> b \<Longrightarrow> (2::nat) ^ a \<le> 2 ^ b"
  by (rule power_increasing) simp_all

lemma toDouble_below_2_56:
  assumes "n < 2 ^ 56"
  shows "toDouble n \<le> 2 ^ 56"
proof (cases "n < 2 ^ 53")
  case True
  then show ?thesis by (simp add: toDouble_small)
next
  case False
  then have "0 < n" by simp
  then obtain k where kk: "2 ^ k \<le> n" "n < 2 ^ Suc k"
    using bitLength_window by blast
  have k53: "53 \<le> k"
  proof (rule ccontr)
    assume "\<not> 53 \<le> k"
    then have "Suc k \<le> 53" by simp
    then have "(2::nat) ^ Suc k \<le> 2 ^ 53" by (rule pow2_mono_nat)
    with kk False show False by linarith
  qed
  have "Suc k \<le> 56"
  proof (rule ccontr)
    assume "\<not> Suc k \<le> 56"
    then have "56 \<le> k" by simp
    then have "(2::nat) ^ 56 \<le> 2 ^ k" by (rule pow2_mono_nat)
    with kk assms show False by linarith
  qed
  then have "(2::nat) ^ Suc k \<le> 2 ^ 56" by (rule pow2_mono_nat)
  moreover have "toDouble n \<le> 2 ^ Suc k"
    using toDouble_bounds [OF kk k53] by simp
  ultimately show ?thesis by linarith
qed

lemma toDouble_above_2_57:
  assumes "2 ^ 57 \<le> n"
  shows "2 ^ 57 \<le> toDouble n"
proof -
  from assms have "0 < n" by simp
  then obtain k where kk: "2 ^ k \<le> n" "n < 2 ^ Suc k"
    using bitLength_window by blast
  have k57: "57 \<le> k"
  proof (rule ccontr)
    assume "\<not> 57 \<le> k"
    then have "Suc k \<le> 57" by simp
    then have "(2::nat) ^ Suc k \<le> 2 ^ 57" by (rule pow2_mono_nat)
    with kk assms show False by linarith
  qed
  then have "53 \<le> k" by simp
  from k57 have "(2::nat) ^ 57 \<le> 2 ^ k" by (rule pow2_mono_nat)
  moreover have "2 ^ k \<le> toDouble n"
    using toDouble_bounds [OF kk \<open>53 \<le> k\<close>] by simp
  ultimately show ?thesis by linarith
qed

lemma toDouble_mid:
  assumes "2 ^ 56 \<le> n" and "n < 2 ^ 57"
  shows "100000000000000000 \<le> toDouble n \<longleftrightarrow> 99999999999999992 \<le> n"
proof -
  define q where "q = n div 16"
  define r where "r = n mod 16"
  have n: "n = 16 * q + r" and r: "r < 16"
    by (simp_all add: q_def r_def)
  have td: "toDouble n = (if r < 8 \<or> (r = 8 \<and> even q) then q * 16 else (q + 1) * 16)"
    using toDouble_57 [OF assms] by (simp add: q_def r_def)
  consider "q \<le> 6249999999999998" | "q = 6249999999999999" | "6250000000000000 \<le> q"
    by linarith
  then show ?thesis
  proof cases
    case 1
    then show ?thesis using n r td by (simp split: if_splits)
  next
    case 2
    then have "odd q" by simp
    then show ?thesis using 2 n r td by (simp split: if_splits)
  next
    case 3
    then show ?thesis using n r td by (simp split: if_splits)
  qed
qed

lemma toDouble_threshold:
  "100000000000000000 \<le> toDouble n \<longleftrightarrow> 99999999999999992 \<le> n"
proof -
  consider "n < 2 ^ 56" | "2 ^ 56 \<le> n" "n < 2 ^ 57" | "2 ^ 57 \<le> n"
    by linarith
  then show ?thesis
  proof cases
    case 1
    with toDouble_below_2_56 [OF 1] show ?thesis by simp
  next
    case 2
    then show ?thesis by (rule toDouble_mid)
  next
    case 3
    with toDouble_above_2_57 [OF 3] show ?thesis by simp
  qed
qed

lemma validateDiscordUserId_null_iff:
  "validateDiscordUserId x = None \<longleftrightarrow>
     matchesDigits (trim x) \<and> 17 \<le> length (trim x) \<and> length (trim x) \<le> 19
     \<and> 100000000000000000 \<le> parseInt (trim x)"
  by (auto simp: validateDiscordUserId_def Let_def matchesDigits_def trim_def)

lemma validateDiscordUserId_accepts_iff:
  "validateDiscordUserId x = None \<longleftrightarrow>
     matchesDigits (trim x) \<and> 17 \<le> length (trim x) \<and> length (trim x) \<le> 19
     \<and> 99999999999999992 \<le> decimalValue (trim x)"
  by (simp add: validateDiscordUserId_null_iff parseInt_def toDouble_threshold)

text \<open>
  C9: the claim has every 17-digit id rejected by the numeric check, since its integer
  is below \<open>10 ^ 17\<close>. The check compares the Number that \<open>parseInt\<close> returns, and the
  17-digit id \<open>99999999999999999\<close> has no Number of its own: \<open>parseInt\<close> returns the
  nearest one, \<open>100000000000000000\<close>, and the validator accepts the id, whose integer
  is below \<open>10 ^ 17\<close>.
\<close>

theorem validateDiscordUserId_accepts_17_nines:
  "length (trim (js ''99999999999999999'')) = 17
   \<and> decimalValue (trim (js ''99999999999999999'')) < 100000000000000000
   \<and> validateDiscordUserId (js ''99999999999999999'') = None"
  unfolding validateDiscordUserId_def trim_17_nines Let_def parseInt_def
    decimalValue_17_nines toDouble_17_nines
  by (simp add: js_def matchesDigits_def isDigit_def)

section \<open>Login and register\<close>

lemma errorMessage_eq: "errorMessage fb err = Inr (errorMessage_old fb err)"
  by (simp add: errorMessage_def errorMessage_old_def Let_def)



lemma storeToken_ok:
  assumes "\<not> isNullish response" and "\<not> isNullish (getProp response (js ''data''))"
  shows "storeToken response st =
           Inr (st\<lparr>localStorage := (localStorage st)
                     (js ''token'' \<mapsto>
                        ToString (getProp (getProp response (js ''data'')) (js ''access_token''))),
                   axios_common := (axios_common st)
                     (js ''Authorization'' \<mapsto> js ''Bearer '' @
                        ToString (getProp (getProp response (js ''data'')) (js ''access_token''))),
                   token := getProp (getProp response (js ''data'')) (js ''access_token'')\<rparr>)"
  using assms by (simp add: storeToken_def readProp_def)

lemma login_sent:
  "sent (snd (login e did pw st)) = sent st @
     [\<lparr>req_method = POST, req_url = API e @ js ''/auth/login'', req_params = [],
       req_data = JObj [(js ''discord_user_id'', JStr did), (js ''password'', JStr pw)],
       req_headers = axios_common st\<rparr>]"
  by (simp add: login_def axios_def Let_def storeToken_def readProp_def errorMessage_eq
      split: sum.splits)

lemma register_sent:
  "sent (snd (register e did un pw st)) = sent st @
     [\<lparr>req_method = POST, req_url = API e @ js ''/auth/register'', req_params = [],
       req_data = JObj [(js ''discord_user_id'', JStr did), (js ''username'', JStr un),
                        (js ''password'', JStr pw)],
       req_headers = axios_common st\<rparr>]"
  by (simp add: register_def axios_def Let_def storeToken_def readProp_def errorMessage_eq
      split: sum.splits)



text \<open>
  C3: \<open>register\<close> sends one POST to \<open>/auth/register\<close> whose body has exactly the
  fields \<open>discord_user_id\<close>, \<open>username\<close> and \<open>password\<close>; \<open>login\<close> sends one POST
  to \<open>/auth/login\<close> whose body has exactly \<open>discord_user_id\<close> and \<open>password\<close>. When
  the request resolves with a response that has a \<open>data\<close> object, each returns
  \<open>success: true\<close> and takes \<open>data.access_token\<close> as the token.
\<close>

theorem auth_requests_and_token:
  "sent (snd (register e did un pw st)) = sent st @
     [\<lparr>req_method = POST, req_url = API e @ js ''/auth/register'', req_params = [],
       req_data = JObj [(js ''discord_user_id'', JStr did), (js ''username'', JStr un),
                        (js ''password'', JStr pw)],
       req_headers = axios_common st\<rparr>]
   \<and> sent (snd (login e did pw st)) = sent st @
     [\<lparr>req_method = POST, req_url = API e @ js ''/auth/login'', req_params = [],
       req_data = JObj [(js ''discord_user_id'', JStr did), (js ''password'', JStr pw)],
       req_headers = axios_common st\<rparr>]
   \<and> (server e (length (sent st))
         \<lparr>req_method = POST, req_url = API e @ js ''/auth/register'', req_params = [],
          req_data = JObj [(js ''discord_user_id'', JStr did), (js ''username'', JStr un),
                           (js ''password'', JStr pw)],
          req_headers = axios_common st\<rparr> = Inr response
       \<and> \<not> isNullish response \<and> \<not> isNullish (getProp response (js ''data''))
       \<longrightarrow> fst (register e did un pw st) = Inr \<lparr>success = True, error = JUndefined\<rparr>
         \<and> token (snd (register e did un pw st))
             = getProp (getProp response (js ''data'')) (js ''access_token''))
   \<and> (server e (length (sent st))
         \<lparr>req_method = POST, req_url = API e @ js ''/auth/login'', req_params = [],
          req_data = JObj [(js ''discord_user_id'', JStr did), (js ''password'', JStr pw)],
          req_headers = axios_common st\<rparr> = Inr response'
       \<and> \<not> isNullish response' \<and> \<not> isNullish (getProp response' (js ''data''))
       \<longrightarrow> fst (login e did pw st) = Inr \<lparr>success = True, error = JUndefined\<rparr>
         \<and> token (snd (login e did pw st))
             = getProp (getProp response' (js ''data'')) (js ''access_token''))"
proof (intro conjI impI)
  show "sent (snd (register e did un pw st)) = sent st @
     [\<lparr>req_method = POST, req_url = API e @ js ''/auth/register'', req_params = [],
       req_data = JObj [(js ''discord_user_id'', JStr did), (js ''username'', JStr un),
                        (js ''password'', JStr pw)],
       req_headers = axios_common st\<rparr>]"
    by (rule register_sent)
  show "sent (snd (login e did pw st)) = sent st @
     [\<lparr>req_method = POST, req_url = API e @ js ''/auth/login'', req_params = [],
       req_data = JObj [(js ''discord_user_id'', JStr did), (js ''password'', JStr pw)],
       req_headers = axios_common st\<rparr>]"
    by (rule login_sent)
next
  assume a: "server e (length (sent st))
         \<lparr>req_method = POST, req_url = API e @ js ''/auth/register'', req_params = [],
          req_data = JObj [(js ''discord_user_id'', JStr did), (js ''username'', JStr un),
                           (js ''password'', JStr pw)],
          req_headers = axios_common st\<rparr> = Inr response
       \<and> \<not> isNullish response \<and> \<not> isNullish (getProp response (js ''data''))"
  then show "fst (register e did un pw st) = Inr \<lparr>success = True, error = JUndefined\<rparr>"
    by (simp add: register_def axios_def Let_def storeToken_ok)
  from a show "token (snd (register e did un pw st))
             = getProp (getProp response (js ''data'')) (js ''access_token'')"
    by (simp add: register_def axios_def Let_def storeToken_ok)
next
  assume a: "server e (length (sent st))
         \<lparr>req_method = POST, req_url = API e @ js ''/auth/login'', req_params = [],
          req_data = JObj [(js ''discord_user_id'', JStr did), (js ''password'', JStr pw)],
          req_headers = axios_common st\<rparr> = Inr response'
       \<and> \<not> isNullish response' \<and> \<not> isNullish (getProp response' (js ''data''))"
  then show "fst (login e did pw st) = Inr \<lparr>success = True, error = JUndefined\<rparr>"
    by (simp add: login_def axios_def Let_def storeToken_ok)
  from a show "token (snd (login e did pw st))
             = getProp (getProp response' (js ''data'')) (js ''access_token'')"
    by (simp add: login_def axios_def Let_def storeToken_ok)
qed

theorem auth_requests_and_token_witness:
  "fst (register
          \<lparr>BACKEND_URL = JStr (js ''http://localhost:8001''),
           server = (\<lambda>n r. Inr (JObj [(js ''data'',
                       JObj [(js ''access_token'', JStr (js ''tok-1'')),
                             (js ''token_type'', JStr (js ''bearer''))])]))\<rparr>
          (js ''123456789012345678'') (js ''Alice'') (js ''secret1'') (initialApp [js ''Accept'' \<mapsto> js ''application/json, text/plain, */*''] Map.empty))
     = Inr \<lparr>success = True, error = JUndefined\<rparr>
   \<and> token (snd (register
          \<lparr>BACKEND_URL = JStr (js ''http://localhost:8001''),
           server = (\<lambda>n r. Inr (JObj [(js ''data'',
                       JObj [(js ''access_token'', JStr (js ''tok-1'')),
                             (js ''token_type'', JStr (js ''bearer''))])]))\<rparr>
          (js ''123456789012345678'') (js ''Alice'') (js ''secret1'') (initialApp [js ''Accept'' \<mapsto> js ''application/json, text/plain, */*''] Map.empty)))
     = JStr (js ''tok-1'')
   \<and> fst (login
          \<lparr>BACKEND_URL = JStr (js ''http://localhost:8001''),
           server = (\<lambda>n r. Inr (JObj [(js ''data'',
                       JObj [(js ''access_token'', JStr (js ''tok-1'')),
                             (js ''token_type'', JStr (js ''bearer''))])]))\<rparr>
          (js ''123456789012345678'') (js ''secret1'') (initialApp [js ''Accept'' \<mapsto> js ''application/json, text/plain, */*''] Map.empty))
     = Inr \<lparr>success = True, error = JUndefined\<rparr>
   \<and> token (snd (login
          \<lparr>BACKEND_URL = JStr (js ''http://localhost:8001''),
           server = (\<lambda>n r. Inr (JObj [(js ''data'',
                       JObj [(js ''access_token'', JStr (js ''tok-1'')),
                             (js ''token_type'', JStr (js ''bearer''))])]))\<rparr>
          (js ''123456789012345678'') (js ''secret1'') (initialApp [js ''Accept'' \<mapsto> js ''application/json, text/plain, */*''] Map.empty)))
     = JStr (js ''tok-1'')"
  using auth_requests_and_token
    [of "\<lparr>BACKEND_URL = JStr (js ''http://localhost:8001''),
           server = (\<lambda>n r. Inr (JObj [(js ''data'',
                       JObj [(js ''access_token'', JStr (js ''tok-1'')),
                             (js ''token_type'', JStr (js ''bearer''))])]))\<rparr>"
        "js ''123456789012345678''" "js ''Alice''" "js ''secret1''" "initialApp [js ''Accept'' \<mapsto> js ''application/json, text/plain, */*''] Map.empty"
        "JObj [(js ''data'', JObj [(js ''access_token'', JStr (js ''tok-1'')),
                             (js ''token_type'', JStr (js ''bearer''))])]"
        "JObj [(js ''data'', JObj [(js ''access_token'', JStr (js ''tok-1'')),
                             (js ''token_type'', JStr (js ''bearer''))])]"]
  by (simp add: getProp_def)

section \<open>The Dashboard's search\<close>

text \<open>
  C8: \<open>fetchNotes\<close> sends one GET to \<open>/notes\<close>; its \<open>search\<close> parameter is the
  search term, unchanged, exactly when the term is a non-empty string, and there is no
  parameter otherwise. A call with the empty term is the call with no term.
\<close>

theorem fetchNotes_search_param:
  "sent (snd (fetchNotes e arg d st)) = sent st @
     [\<lparr>req_method = GET, req_url = API e @ js ''/notes'',
       req_params = (case arg of
                       None \<Rightarrow> []
                     | Some s \<Rightarrow> if s = [] then [] else [(js ''search'', JStr s)]),
       req_data = JUndefined,
       req_headers = axios_common st\<rparr>]
   \<and> fetchNotes e (Some []) d st = fetchNotes e None d st"
  by (simp add: fetchNotes_def axios_def Let_def split: option.splits)

section \<open>Deleting through the bot surface\<close>

text \<open>
  C1: \<open>bot_delete_note\<close> never fails with \<open>Forbidden\<close>, and it removes every note
  that exists, whoever owns it: also a note on which the authenticated \<open>delete_note\<close>
  of a caller who is not the owner fails with \<open>Forbidden\<close>.
\<close>

theorem bot_delete_no_ownership_check:
  "bot_delete_note note_id store \<noteq> Inl Forbidden
   \<and> (store note_id = Some n \<longrightarrow>
        bot_delete_note note_id store = Inr (store(note_id := None))
        \<and> (caller \<noteq> owner_external_id n \<longrightarrow> delete_note caller note_id store = Inl Forbidden))"
  by (simp add: bot_delete_note_def delete_note_def split: option.splits)

theorem bot_delete_no_ownership_check_witness:
  "bot_delete_note (js ''n1'')
     [js ''n1'' \<mapsto> \<lparr>owner_external_id = js ''111111111111111111'', content = js ''buy milk''\<rparr>]
     = Inr ([js ''n1'' \<mapsto> \<lparr>owner_external_id = js ''111111111111111111'',
                               content = js ''buy milk''\<rparr>](js ''n1'' := None))
   \<and> delete_note (js ''222222222222222222'') (js ''n1'')
     [js ''n1'' \<mapsto> \<lparr>owner_external_id = js ''111111111111111111'', content = js ''buy milk''\<rparr>]
     = Inl Forbidden"
  using bot_delete_no_ownership_check
    [of "js ''n1''"
        "[js ''n1'' \<mapsto> \<lparr>owner_external_id = js ''111111111111111111'',
                            content = js ''buy milk''\<rparr>]"
        "\<lparr>owner_external_id = js ''111111111111111111'', content = js ''buy milk''\<rparr>"
        "js ''222222222222222222''"]
  by (simp add: js_def)

section \<open>The form's gate\<close>

lemma validateDiscordUserId_msg: "validateDiscordUserId x = Some m \<Longrightarrow> m \<noteq> []"
  by (auto simp: validateDiscordUserId_def Let_def js_def split: if_splits)

lemma validateUsername_msg: "validateUsername x = Some m \<Longrightarrow> m \<noteq> []"
  by (auto simp: validateUsername_def Let_def js_def split: if_splits)

lemma validatePassword_msg: "validatePassword x = Some m \<Longrightarrow> m \<noteq> []"
  by (auto simp: validatePassword_def Let_def js_def split: if_splits)

lemma addError_eq_Nil:
  "addError k msg errors = [] \<longleftrightarrow> errors = [] \<and> (msg = None \<or> msg = Some [])"
  by (auto simp: addError_def split: option.splits)

lemma validateDiscordUserId_not_empty: "validateDiscordUserId x \<noteq> Some []"
  using validateDiscordUserId_msg by blast

lemma validateUsername_not_empty: "validateUsername x \<noteq> Some []"
  using validateUsername_msg by blast

lemma validatePassword_not_empty: "validatePassword x \<noteq> Some []"
  using validatePassword_msg by blast

lemma validateForm_fails:
  assumes "validateDiscordUserId (discordUserId f) \<noteq> None
           \<or> (\<not> isLogin f \<and> validateUsername (username f) \<noteq> None)
           \<or> validatePassword (password f) \<noteq> None"
  shows "\<not> fst (validateForm f)"
  using assms
  by (auto simp: validateForm_def Let_def addError_eq_Nil validateDiscordUserId_not_empty
      validateUsername_not_empty validatePassword_not_empty)

lemma validateForm_frame:
  "isLogin (snd (validateForm f)) = isLogin f"
  by (simp add: validateForm_def Let_def)

text \<open>
  C7: when a validator that applies to the submission reports an error (the id's, the
  password's, or in register mode the username's), \<open>handleSubmit\<close> sends no request
  and changes nothing of the shared state: \<open>login\<close> and \<open>register\<close> are not called. It
  returns after recording the field errors.
\<close>

theorem handleSubmit_gated:
  assumes "validateDiscordUserId (discordUserId f) \<noteq> None
           \<or> (\<not> isLogin f \<and> validateUsername (username f) \<noteq> None)
           \<or> validatePassword (password f) \<noteq> None"
  shows "snd (snd (handleSubmit e f st)) = st
         \<and> sent (snd (snd (handleSubmit e f st))) = sent st
         \<and> fst (handleSubmit e f st) = Inr ()
         \<and> fieldErrors (fst (snd (handleSubmit e f st))) \<noteq> []"
proof -
  let ?f1 = "f\<lparr>form_error := JStr [], fieldErrors := []\<rparr>"
  have "validateDiscordUserId (discordUserId ?f1) \<noteq> None
           \<or> (\<not> isLogin ?f1 \<and> validateUsername (username ?f1) \<noteq> None)
           \<or> validatePassword (password ?f1) \<noteq> None"
    using assms by simp
  then have no: "\<not> fst (validateForm ?f1)"
    by (rule validateForm_fails)
  then have ne: "fieldErrors (snd (validateForm ?f1)) \<noteq> []"
    by (simp add: validateForm_def Let_def)
  from no ne show ?thesis
    by (simp add: handleSubmit_def Let_def split_beta)
qed

theorem handleSubmit_gated_witness:
  "let E = \<lparr>BACKEND_URL = JStr (js ''http://localhost:8001''),
            server = (\<lambda>n r. Inl (AxiosError JUndefined))\<rparr>;
       f = \<lparr>isLogin = True, discordUserId = js ''12345'', username = [],
            password = js ''secret1'', showPassword = False, form_error = JStr [],
            fieldErrors = [], form_loading = False\<rparr>
   in snd (snd (handleSubmit E f (initialApp [js ''Accept'' \<mapsto> js ''application/json, text/plain, */*''] Map.empty))) = initialApp [js ''Accept'' \<mapsto> js ''application/json, text/plain, */*''] Map.empty
      \<and> sent (snd (snd (handleSubmit E f (initialApp [js ''Accept'' \<mapsto> js ''application/json, text/plain, */*''] Map.empty)))) = []
      \<and> fst (handleSubmit E f (initialApp [js ''Accept'' \<mapsto> js ''application/json, text/plain, */*''] Map.empty)) = Inr ()"
proof -
  let ?E = "\<lparr>BACKEND_URL = JStr (js ''http://localhost:8001''),
            server = (\<lambda>n r. Inl (AxiosError JUndefined))\<rparr>"
  let ?f = "\<lparr>isLogin = True, discordUserId = js ''12345'', username = [],
            password = js ''secret1'', showPassword = False, form_error = JStr [],
            fieldErrors = [], form_loading = False\<rparr>"
  have "validateDiscordUserId (js ''12345'') \<noteq> None"
    by (simp add: validateDiscordUserId_def trim_def js_def isWhiteSpace_def matchesDigits_def
        isDigit_def Let_def)
  then have h: "validateDiscordUserId (discordUserId ?f) \<noteq> None
           \<or> (\<not> isLogin ?f \<and> validateUsername (username ?f) \<noteq> None)
           \<or> validatePassword (password ?f) \<noteq> None"
    by simp
  from handleSubmit_gated [OF h, of ?E "initialApp [js ''Accept'' \<mapsto> js ''application/json, text/plain, */*''] Map.empty"] show ?thesis
    by (simp add: Let_def initialApp_def)
qed


section \<open>Requests carry the common headers\<close>

lemma sendsOnly_refl: "sendsOnly st st"
  by (simp add: sendsOnly_def)

lemma sendsOnly_trans: "sendsOnly st st' \<Longrightarrow> sendsOnly st' st'' \<Longrightarrow> sendsOnly st st''"
  by (auto simp: sendsOnly_def)

lemma axios_sendsOnly: "sendsOnly st (snd (axios e m u ps d st))"
  by (simp add: sendsOnly_def axios_def Let_def)

lemma fetchNotes_sendsOnly: "sendsOnly st (snd (fetchNotes e arg d st))"
  using axios_sendsOnly [of st e GET "API e @ js ''/notes''"]
  by (simp add: fetchNotes_def Let_def split_beta)

lemma handleSaveEdit_sendsOnly: "sendsOnly st (snd (handleSaveEdit e noteId d st))"
proof -
  let ?a = "axios e PUT (API e @ js ''/notes/'' @ ToString noteId) []
              (JObj [(js ''content'', JStr (editContent d))]) st"
  have 1: "sendsOnly st (snd ?a)" by (rule axios_sendsOnly)
  show ?thesis
  proof (cases "fst ?a")
    case (Inl err)
    with 1 show ?thesis by (simp add: handleSaveEdit_def split_beta)
  next
    case (Inr response)
    have "sendsOnly (snd ?a)
            (snd (fetchNotes e (Some (searchTerm d)) (d\<lparr>editingNote := JNull\<rparr>) (snd ?a)))"
      by (rule fetchNotes_sendsOnly)
    with 1 Inr show ?thesis
      by (simp add: handleSaveEdit_def split_beta sendsOnly_trans)
  qed
qed

lemma handleDelete_sendsOnly: "sendsOnly st (snd (handleDelete e noteId c d st))"
proof (cases c)
  case False
  then show ?thesis by (simp add: handleDelete_def sendsOnly_refl)
next
  case True
  let ?a = "axios e DELETE (API e @ js ''/notes/'' @ ToString noteId) [] JUndefined st"
  have 1: "sendsOnly st (snd ?a)" by (rule axios_sendsOnly)
  show ?thesis
  proof (cases "fst ?a")
    case (Inl err)
    with 1 True show ?thesis by (simp add: handleDelete_def split_beta)
  next
    case (Inr response)
    have "sendsOnly (snd ?a) (snd (fetchNotes e (Some (searchTerm d)) d (snd ?a)))"
      by (rule fetchNotes_sendsOnly)
    with 1 True Inr show ?thesis
      by (simp add: handleDelete_def split_beta sendsOnly_trans)
  qed
qed

lemma dashboardStep_sendsOnly: "sendsOnly (snd s) (snd (dashboardStep e a s))"
proof (cases s)
  case (Pair d st)
  then show ?thesis
    by (cases a)
       (simp_all add: handleSearch_def fetchNotes_sendsOnly handleSaveEdit_sendsOnly
          handleDelete_sendsOnly)
qed

lemma dashboardRun_sendsOnly: "sendsOnly (snd s) (snd (dashboardRun e acts s))"
proof (induction acts arbitrary: s)
  case Nil
  show ?case by (simp add: sendsOnly_refl)
next
  case (Cons a acts)
  have "sendsOnly (snd s) (snd (dashboardStep e a s))"
    by (rule dashboardStep_sendsOnly)
  moreover have "sendsOnly (snd (dashboardStep e a s))
                   (snd (dashboardRun e acts (dashboardStep e a s)))"
    by (rule Cons.IH)
  ultimately show ?case
    by (simp add: sendsOnly_trans)
qed

lemma sendsOnly_new_requests:
  assumes "sendsOnly st st'" and "r \<in> set (drop (length (sent st)) (sent st'))"
  shows "req_headers r = axios_common st"
  using assms by (auto simp: sendsOnly_def list_all_iff)

lemma storeToken_installs:
  assumes "storeToken response st = Inr st'"
  shows "localStorage st' (js ''token'') = Some (ToString (token st'))
         \<and> axios_common st' (js ''Authorization'') = Some (js ''Bearer '' @ ToString (token st'))"
  using assms by (auto simp: storeToken_def split: sum.splits)

lemma login_success_stored:
  assumes "login e did pw st = (Inr res, st')" and "success res"
  shows "\<exists>response st1. storeToken response st1 = Inr st'"
  using assms
  by (auto simp: login_def Let_def split_beta errorMessage_eq split: sum.splits)

lemma register_success_stored:
  assumes "register e did un pw st = (Inr res, st')" and "success res"
  shows "\<exists>response st1. storeToken response st1 = Inr st'"
  using assms
  by (auto simp: register_def Let_def split_beta errorMessage_eq split: sum.splits)

lemma fetchUser_sent:
  "sent (fetchUser e st) = sent st @
     [\<lparr>req_method = GET, req_url = API e @ js ''/auth/me'', req_params = [],
       req_data = JUndefined, req_headers = axios_common st\<rparr>]"
  by (simp add: fetchUser_def axios_def Let_def logout_def split: sum.splits)

lemma tokenEffect_sent:
  assumes "truthy (token st)"
  shows "sent (tokenEffect e st) = sent st @
     [\<lparr>req_method = GET, req_url = API e @ js ''/auth/me'', req_params = [],
       req_data = JUndefined,
       req_headers = (axios_common st)
          (js ''Authorization'' \<mapsto> js ''Bearer '' @ ToString (token st))\<rparr>]"
  using assms by (simp add: tokenEffect_def fetchUser_sent)

section \<open>The current-account fetch\<close>

lemma fetchUser_failed:
  assumes "server e (length (sent st))
             \<lparr>req_method = GET, req_url = API e @ js ''/auth/me'', req_params = [],
              req_data = JUndefined, req_headers = axios_common st\<rparr> = Inl err
           \<or> (server e (length (sent st))
             \<lparr>req_method = GET, req_url = API e @ js ''/auth/me'', req_params = [],
              req_data = JUndefined, req_headers = axios_common st\<rparr> = Inr response
              \<and> isNullish response)"
  shows "fetchUser e st =
           (logout (st\<lparr>sent := sent st @
              [\<lparr>req_method = GET, req_url = API e @ js ''/auth/me'', req_params = [],
                req_data = JUndefined, req_headers = axios_common st\<rparr>]\<rparr>))\<lparr>loading := False\<rparr>"
  using assms by (auto simp: fetchUser_def axios_def Let_def readProp_def)

lemma fetchUser_resolved:
  assumes "server e (length (sent st))
             \<lparr>req_method = GET, req_url = API e @ js ''/auth/me'', req_params = [],
              req_data = JUndefined, req_headers = axios_common st\<rparr> = Inr response"
    and "\<not> isNullish response"
  shows "fetchUser e st =
           st\<lparr>sent := sent st @
                 [\<lparr>req_method = GET, req_url = API e @ js ''/auth/me'', req_params = [],
                   req_data = JUndefined, req_headers = axios_common st\<rparr>],
              user := getProp response (js ''data''),
              loading := False\<rparr>"
  using assms by (simp add: fetchUser_def axios_def Let_def readProp_def)

lemma fetchUser_Dashboard:
  assumes "AppRouter (fetchUser e st) = DashboardScreen"
  shows "\<exists>response.
           server e (length (sent st))
             \<lparr>req_method = GET, req_url = API e @ js ''/auth/me'', req_params = [],
              req_data = JUndefined, req_headers = axios_common st\<rparr> = Inr response
           \<and> \<not> isNullish response
           \<and> truthy (getProp response (js ''data''))
           \<and> user (fetchUser e st) = getProp response (js ''data'')"
proof (cases "server e (length (sent st))
             \<lparr>req_method = GET, req_url = API e @ js ''/auth/me'', req_params = [],
              req_data = JUndefined, req_headers = axios_common st\<rparr>")
  case (Inl err)
  then have "AppRouter (fetchUser e st) = AuthScreen"
    by (simp add: fetchUser_failed AppRouter_def logout_def)
  with assms show ?thesis by simp
next
  case (Inr response)
  show ?thesis
  proof (cases "isNullish response")
    case True
    with Inr have "AppRouter (fetchUser e st) = AuthScreen"
      by (simp add: fetchUser_failed AppRouter_def logout_def)
    with assms show ?thesis by simp
  next
    case False
    with Inr have eq: "fetchUser e st =
           st\<lparr>sent := sent st @
                 [\<lparr>req_method = GET, req_url = API e @ js ''/auth/me'', req_params = [],
                   req_data = JUndefined, req_headers = axios_common st\<rparr>],
              user := getProp response (js ''data''),
              loading := False\<rparr>"
      by (rule fetchUser_resolved)
    with assms have "truthy (getProp response (js ''data''))"
      by (simp add: AppRouter_def split: if_splits)
    with Inr False eq show ?thesis by simp
  qed
qed

lemma tokenEffect_resolved:
  assumes "truthy (token st)"
    and "server e (length (sent st))
           \<lparr>req_method = GET, req_url = API e @ js ''/auth/me'', req_params = [],
            req_data = JUndefined,
            req_headers = (axios_common st)
              (js ''Authorization'' \<mapsto> js ''Bearer '' @ ToString (token st))\<rparr> = Inr response"
    and "\<not> isNullish response"
  shows "tokenEffect e st =
           st\<lparr>axios_common := (axios_common st)
                 (js ''Authorization'' \<mapsto> js ''Bearer '' @ ToString (token st)),
              sent := sent st @
                 [\<lparr>req_method = GET, req_url = API e @ js ''/auth/me'', req_params = [],
                   req_data = JUndefined,
                   req_headers = (axios_common st)
                     (js ''Authorization'' \<mapsto> js ''Bearer '' @ ToString (token st))\<rparr>],
              user := getProp response (js ''data''),
              loading := False\<rparr>"
  using assms by (simp add: tokenEffect_def fetchUser_resolved)

lemma dashboardRun_frame:
  "user (snd (dashboardRun e acts (d, st))) = user st
   \<and> token (snd (dashboardRun e acts (d, st))) = token st
   \<and> loading (snd (dashboardRun e acts (d, st))) = loading st
   \<and> localStorage (snd (dashboardRun e acts (d, st))) = localStorage st
   \<and> axios_common (snd (dashboardRun e acts (d, st))) = axios_common st"
  using dashboardRun_sendsOnly [of "(d, st)" e acts] by (simp add: sendsOnly_def)

lemma dashboardRun_carries:
  assumes "r \<in> set (drop (length (sent st)) (sent (snd (dashboardRun e acts (d, st)))))"
  shows "req_headers r = axios_common st"
proof -
  have "sendsOnly st (snd (dashboardRun e acts (d, st)))"
    using dashboardRun_sendsOnly [of "(d, st)" e acts] by simp
  then show ?thesis
    using assms by (rule sendsOnly_new_requests)
qed

lemma dashboardRun_AppRouter: "AppRouter (snd (dashboardRun e acts (d, st))) = AppRouter st"
  by (simp add: AppRouter_def dashboardRun_frame)

section \<open>The bearer token\<close>

text \<open>
  C5: after a successful \<open>login\<close> or \<open>register\<close>, the token is in \<open>localStorage\<close>
  and the common \<open>Authorization\<close> header is \<open>Bearer\<close> followed by the token; every
  request the Dashboard then sends, in any sequence of its operations, carries that
  header, and so does the \<open>/auth/me\<close> request of the token effect; when that request
  resolves, the token is still stored and the header still installed after the effect,
  and the Dashboard's requests from there on carry it. On startup with a non-empty token
  in \<open>localStorage\<close> the header is installed again: the first request carries
  \<open>Bearer\<close> followed by the stored token, and when it resolves the header stays in the
  common headers and every request of the Dashboard carries it.
\<close>

theorem bearer_token_carried:
  "((login e did pw st = (Inr res, st') \<or> register e did un pw st = (Inr res, st'))
      \<and> success res
    \<longrightarrow> localStorage st' (js ''token'') = Some (ToString (token st'))
      \<and> axios_common st' (js ''Authorization'') = Some (js ''Bearer '' @ ToString (token st'))
      \<and> (\<forall>acts d. \<forall>r \<in> set (drop (length (sent st')) (sent (snd (dashboardRun e acts (d, st'))))).
            req_headers r (js ''Authorization'') = Some (js ''Bearer '' @ ToString (token st')))
      \<and> (truthy (token st') \<longrightarrow>
            req_headers (last (sent (tokenEffect e st'))) (js ''Authorization'')
              = Some (js ''Bearer '' @ ToString (token st')))
      \<and> (truthy (token st')
           \<and> server e (length (sent st'))
                \<lparr>req_method = GET, req_url = API e @ js ''/auth/me'', req_params = [],
                 req_data = JUndefined, req_headers = axios_common st'\<rparr> = Inr response
           \<and> \<not> isNullish response
          \<longrightarrow> localStorage (tokenEffect e st') (js ''token'') = Some (ToString (token st'))
            \<and> token (tokenEffect e st') = token st'
            \<and> axios_common (tokenEffect e st') = axios_common st'
            \<and> axios_common (tokenEffect e st') (js ''Authorization'')
                = Some (js ''Bearer '' @ ToString (token st'))
            \<and> (\<forall>acts d. \<forall>r \<in> set (drop (length (sent (tokenEffect e st')))
                                  (sent (snd (dashboardRun e acts (d, tokenEffect e st'))))).
                  req_headers r (js ''Authorization'')
                    = Some (js ''Bearer '' @ ToString (token st')))))
   \<and> (storage (js ''token'') = Some t \<and> t \<noteq> []
    \<longrightarrow> sent (startup e library_common storage) =
          [\<lparr>req_method = GET, req_url = API e @ js ''/auth/me'', req_params = [],
            req_data = JUndefined,
            req_headers = library_common(js ''Content-Type'' \<mapsto> js ''application/json'',
                                         js ''Authorization'' \<mapsto> js ''Bearer '' @ t)\<rparr>]
      \<and> (server e 0
            \<lparr>req_method = GET, req_url = API e @ js ''/auth/me'', req_params = [],
             req_data = JUndefined,
             req_headers = library_common(js ''Content-Type'' \<mapsto> js ''application/json'',
                                          js ''Authorization'' \<mapsto> js ''Bearer '' @ t)\<rparr>
              = Inr response'
           \<and> \<not> isNullish response'
          \<longrightarrow> localStorage (startup e library_common storage) (js ''token'') = Some t
            \<and> token (startup e library_common storage) = JStr t
            \<and> axios_common (startup e library_common storage)
                = library_common(js ''Content-Type'' \<mapsto> js ''application/json'',
                                 js ''Authorization'' \<mapsto> js ''Bearer '' @ t)
            \<and> (\<forall>acts d. \<forall>r \<in> set (drop (length (sent (startup e library_common storage)))
                        (sent (snd (dashboardRun e acts (d, startup e library_common storage))))).
                  req_headers r (js ''Authorization'') = Some (js ''Bearer '' @ t))))"
proof (intro conjI impI)
  assume a: "(login e did pw st = (Inr res, st') \<or> register e did un pw st = (Inr res, st'))
      \<and> success res"
  then obtain response0 st1 where "storeToken response0 st1 = Inr st'"
    using login_success_stored register_success_stored by blast
  then have inst: "localStorage st' (js ''token'') = Some (ToString (token st'))
         \<and> axios_common st' (js ''Authorization'') = Some (js ''Bearer '' @ ToString (token st'))"
    by (rule storeToken_installs)
  from inst show sto: "localStorage st' (js ''token'') = Some (ToString (token st'))" by simp
  from inst show hdr: "axios_common st' (js ''Authorization'')
      = Some (js ''Bearer '' @ ToString (token st'))" by simp
  show "\<forall>acts d. \<forall>r \<in> set (drop (length (sent st')) (sent (snd (dashboardRun e acts (d, st'))))).
            req_headers r (js ''Authorization'') = Some (js ''Bearer '' @ ToString (token st'))"
    using hdr by (auto dest: dashboardRun_carries)
  have idem: "(axios_common st')(js ''Authorization'' \<mapsto> js ''Bearer '' @ ToString (token st'))
      = axios_common st'"
    using hdr by (rule map_upd_triv)
  {
    assume "truthy (token st')"
    then show "req_headers (last (sent (tokenEffect e st'))) (js ''Authorization'')
              = Some (js ''Bearer '' @ ToString (token st'))"
      by (simp add: tokenEffect_sent)
  }
  assume b: "truthy (token st')
           \<and> server e (length (sent st'))
                \<lparr>req_method = GET, req_url = API e @ js ''/auth/me'', req_params = [],
                 req_data = JUndefined, req_headers = axios_common st'\<rparr> = Inr response
           \<and> \<not> isNullish response"
  have eq: "tokenEffect e st' =
           st'\<lparr>axios_common := (axios_common st')
                 (js ''Authorization'' \<mapsto> js ''Bearer '' @ ToString (token st')),
              sent := sent st' @
                 [\<lparr>req_method = GET, req_url = API e @ js ''/auth/me'', req_params = [],
                   req_data = JUndefined,
                   req_headers = (axios_common st')
                     (js ''Authorization'' \<mapsto> js ''Bearer '' @ ToString (token st'))\<rparr>],
              user := getProp response (js ''data''),
              loading := False\<rparr>"
    using b by (intro tokenEffect_resolved) (simp_all add: idem)
  show "localStorage (tokenEffect e st') (js ''token'') = Some (ToString (token st'))"
    unfolding eq using sto by simp
  show "token (tokenEffect e st') = token st'"
    unfolding eq by simp
  show ac: "axios_common (tokenEffect e st') = axios_common st'"
    unfolding eq by (simp add: idem)
  show "axios_common (tokenEffect e st') (js ''Authorization'')
                = Some (js ''Bearer '' @ ToString (token st'))"
    unfolding ac by (rule hdr)
  show "\<forall>acts d. \<forall>r \<in> set (drop (length (sent (tokenEffect e st')))
                                  (sent (snd (dashboardRun e acts (d, tokenEffect e st'))))).
                  req_headers r (js ''Authorization'')
                    = Some (js ''Bearer '' @ ToString (token st'))"
    using hdr ac by (auto dest: dashboardRun_carries)
next
  assume s: "storage (js ''token'') = Some t \<and> t \<noteq> []"
  then show "sent (startup e library_common storage) =
          [\<lparr>req_method = GET, req_url = API e @ js ''/auth/me'', req_params = [],
            req_data = JUndefined,
            req_headers = library_common(js ''Content-Type'' \<mapsto> js ''application/json'',
                                         js ''Authorization'' \<mapsto> js ''Bearer '' @ t)\<rparr>]"
    by (simp add: startup_def initialApp_def tokenEffect_sent)
  assume r: "server e 0
            \<lparr>req_method = GET, req_url = API e @ js ''/auth/me'', req_params = [],
             req_data = JUndefined,
             req_headers = library_common(js ''Content-Type'' \<mapsto> js ''application/json'',
                                          js ''Authorization'' \<mapsto> js ''Bearer '' @ t)\<rparr>
              = Inr response'
           \<and> \<not> isNullish response'"
  let ?i = "initialApp library_common storage"
  have i: "token ?i = JStr t" "sent ?i = []" "localStorage ?i = storage"
    "axios_common ?i = library_common(js ''Content-Type'' \<mapsto> js ''application/json'')"
    using s by (simp_all add: initialApp_def)
  have eq: "tokenEffect e ?i =
           ?i\<lparr>axios_common := (axios_common ?i)
                 (js ''Authorization'' \<mapsto> js ''Bearer '' @ ToString (token ?i)),
              sent := sent ?i @
                 [\<lparr>req_method = GET, req_url = API e @ js ''/auth/me'', req_params = [],
                   req_data = JUndefined,
                   req_headers = (axios_common ?i)
                     (js ''Authorization'' \<mapsto> js ''Bearer '' @ ToString (token ?i))\<rparr>],
              user := getProp response' (js ''data''),
              loading := False\<rparr>"
    using s r by (intro tokenEffect_resolved) (simp_all add: i)
  show "localStorage (startup e library_common storage) (js ''token'') = Some t"
    unfolding startup_def eq using s by (simp add: i)
  show "token (startup e library_common storage) = JStr t"
    unfolding startup_def eq by (simp add: i)
  show ac: "axios_common (startup e library_common storage)
                = library_common(js ''Content-Type'' \<mapsto> js ''application/json'',
                                 js ''Authorization'' \<mapsto> js ''Bearer '' @ t)"
    unfolding startup_def eq by (simp add: i)
  show "\<forall>acts d. \<forall>r \<in> set (drop (length (sent (startup e library_common storage)))
                        (sent (snd (dashboardRun e acts (d, startup e library_common storage))))).
                  req_headers r (js ''Authorization'') = Some (js ''Bearer '' @ t)"
    using ac by (auto dest: dashboardRun_carries)
qed

theorem bearer_token_carried_witness:
  "let E = \<lparr>BACKEND_URL = JStr (js ''http://localhost:8001''),
            server = (\<lambda>n r. Inr (JObj [(js ''data'',
                        JObj [(js ''access_token'', JStr (js ''tok-1''))])]))\<rparr>;
       lib = [js ''Accept'' \<mapsto> js ''application/json, text/plain, */*''];
       st' = snd (login E (js ''123456789012345678'') (js ''secret1'') (initialApp lib Map.empty));
       up = startup E lib [js ''token'' \<mapsto> js ''tok-1''];
       d = \<lparr>dash_notes = JArr [], searchTerm = js ''milk'', dash_loading = False,
            searchLoading = False, editingNote = JNull, editContent = []\<rparr>;
       acts = [Search, Delete (JStr (js ''n1'')) True]
   in localStorage st' (js ''token'') = Some (js ''tok-1'')
      \<and> axios_common st' (js ''Authorization'') = Some (js ''Bearer tok-1'')
      \<and> list_all (\<lambda>r. req_headers r (js ''Authorization'') = Some (js ''Bearer tok-1''))
           (drop (length (sent st')) (sent (snd (dashboardRun E acts (d, st')))))
      \<and> req_headers (last (sent (tokenEffect E st'))) (js ''Authorization'')
           = Some (js ''Bearer tok-1'')
      \<and> axios_common (tokenEffect E st') (js ''Authorization'') = Some (js ''Bearer tok-1'')
      \<and> list_all (\<lambda>r. req_headers r (js ''Authorization'') = Some (js ''Bearer tok-1''))
           (drop (length (sent (tokenEffect E st')))
              (sent (snd (dashboardRun E acts (d, tokenEffect E st')))))
      \<and> sent up =
          [\<lparr>req_method = GET, req_url = API E @ js ''/auth/me'', req_params = [],
            req_data = JUndefined,
            req_headers = lib(js ''Content-Type'' \<mapsto> js ''application/json'',
                              js ''Authorization'' \<mapsto> js ''Bearer tok-1'')\<rparr>]
      \<and> axios_common up = lib(js ''Content-Type'' \<mapsto> js ''application/json'',
                               js ''Authorization'' \<mapsto> js ''Bearer tok-1'')
      \<and> localStorage up (js ''token'') = Some (js ''tok-1'')
      \<and> list_all (\<lambda>r. req_headers r (js ''Authorization'') = Some (js ''Bearer tok-1''))
           (drop (length (sent up)) (sent (snd (dashboardRun E acts (d, up)))))"
proof -
  let ?resp = "JObj [(js ''data'', JObj [(js ''access_token'', JStr (js ''tok-1''))])]"
  let ?E = "\<lparr>BACKEND_URL = JStr (js ''http://localhost:8001''),
            server = (\<lambda>n r. Inr (JObj [(js ''data'',
                        JObj [(js ''access_token'', JStr (js ''tok-1''))])]))\<rparr>"
  let ?lib = "[js ''Accept'' \<mapsto> js ''application/json, text/plain, */*'']"
  let ?S = "[js ''token'' \<mapsto> js ''tok-1'']"
  let ?l = "login ?E (js ''123456789012345678'') (js ''secret1'') (initialApp ?lib Map.empty)"
  let ?st = "snd ?l"
  let ?up = "startup ?E ?lib ?S"
  let ?res = "\<lparr>success = True, error = JUndefined\<rparr>"
  let ?d = "\<lparr>dash_notes = JArr [], searchTerm = js ''milk'', dash_loading = False,
            searchLoading = False, editingNote = JNull, editContent = []\<rparr>"
  let ?acts = "[Search, Delete (JStr (js ''n1'')) True]"
  have f: "fst ?l = Inr ?res"
    by (simp add: login_def axios_def Let_def storeToken_ok getProp_def)
  have t: "token ?st = JStr (js ''tok-1'')"
    by (simp add: login_def axios_def Let_def storeToken_ok getProp_def)
  have tok: "js ''Bearer '' @ ToString (token ?st) = js ''Bearer tok-1''"
    unfolding t by (simp add: js_def)
  have tok': "ToString (token ?st) = js ''tok-1''"
    unfolding t by simp
  have b: "js ''Bearer '' @ js ''tok-1'' = js ''Bearer tok-1''"
    by (simp add: js_def)
  have hyp: "(?l = (Inr ?res, ?st)
              \<or> register ?E (js ''123456789012345678'') [] (js ''secret1'')
                   (initialApp ?lib Map.empty) = (Inr ?res, ?st))
             \<and> success ?res"
    using f by (simp add: prod_eq_iff)
  have tr: "truthy (token ?st)"
    unfolding t by (simp add: js_def)
  have hyp2: "truthy (token ?st)
           \<and> server ?E (length (sent ?st))
                \<lparr>req_method = GET, req_url = API ?E @ js ''/auth/me'', req_params = [],
                 req_data = JUndefined, req_headers = axios_common ?st\<rparr> = Inr ?resp
           \<and> \<not> isNullish ?resp"
    using tr by simp
  have sto: "?S (js ''token'') = Some (js ''tok-1'') \<and> js ''tok-1'' \<noteq> []"
    by (simp add: js_def)
  have hyp3: "server ?E 0
            \<lparr>req_method = GET, req_url = API ?E @ js ''/auth/me'', req_params = [],
             req_data = JUndefined,
             req_headers = ?lib(js ''Content-Type'' \<mapsto> js ''application/json'',
                               js ''Authorization'' \<mapsto> js ''Bearer '' @ js ''tok-1'')\<rparr>
              = Inr ?resp
           \<and> \<not> isNullish ?resp"
    by simp
  note T = bearer_token_carried
    [where e = ?E and did = "js ''123456789012345678''" and pw = "js ''secret1''"
       and st = "initialApp ?lib Map.empty" and res = ?res and st' = ?st and un = "[]"
       and response = ?resp and storage = ?S and t = "js ''tok-1''"
       and library_common = ?lib and response' = ?resp]
  from T hyp have c1: "localStorage ?st (js ''token'') = Some (ToString (token ?st))"
    by blast
  from T hyp have c2: "axios_common ?st (js ''Authorization'')
      = Some (js ''Bearer '' @ ToString (token ?st))"
    by blast
  from T hyp have "\<forall>r \<in> set (drop (length (sent ?st))
                     (sent (snd (dashboardRun ?E ?acts (?d, ?st))))).
            req_headers r (js ''Authorization'') = Some (js ''Bearer '' @ ToString (token ?st))"
    by blast
  then have c3: "list_all (\<lambda>r. req_headers r (js ''Authorization'') = Some (js ''Bearer tok-1''))
           (drop (length (sent ?st)) (sent (snd (dashboardRun ?E ?acts (?d, ?st)))))"
    unfolding list_all_iff tok .
  from T hyp tr have c4: "req_headers (last (sent (tokenEffect ?E ?st))) (js ''Authorization'')
           = Some (js ''Bearer '' @ ToString (token ?st))"
    by blast
  from T hyp hyp2 have c5: "axios_common (tokenEffect ?E ?st) (js ''Authorization'')
           = Some (js ''Bearer '' @ ToString (token ?st))"
    by blast
  from T hyp hyp2 have "\<forall>r \<in> set (drop (length (sent (tokenEffect ?E ?st)))
                     (sent (snd (dashboardRun ?E ?acts (?d, tokenEffect ?E ?st))))).
            req_headers r (js ''Authorization'') = Some (js ''Bearer '' @ ToString (token ?st))"
    by blast
  then have c6: "list_all (\<lambda>r. req_headers r (js ''Authorization'') = Some (js ''Bearer tok-1''))
           (drop (length (sent (tokenEffect ?E ?st)))
              (sent (snd (dashboardRun ?E ?acts (?d, tokenEffect ?E ?st)))))"
    unfolding list_all_iff tok .
  from T sto have c7: "sent ?up =
          [\<lparr>req_method = GET, req_url = API ?E @ js ''/auth/me'', req_params = [],
            req_data = JUndefined,
            req_headers = ?lib(js ''Content-Type'' \<mapsto> js ''application/json'',
                              js ''Authorization'' \<mapsto> js ''Bearer '' @ js ''tok-1'')\<rparr>]"
    by blast
  from T sto hyp3 have c8: "axios_common ?up
      = ?lib(js ''Content-Type'' \<mapsto> js ''application/json'',
             js ''Authorization'' \<mapsto> js ''Bearer '' @ js ''tok-1'')"
    by blast
  from T sto hyp3 have c9: "localStorage ?up (js ''token'') = Some (js ''tok-1'')"
    by blast
  from T sto hyp3 have "\<forall>r \<in> set (drop (length (sent ?up))
                     (sent (snd (dashboardRun ?E ?acts (?d, ?up))))).
            req_headers r (js ''Authorization'') = Some (js ''Bearer '' @ js ''tok-1'')"
    by blast
  then have c10: "list_all (\<lambda>r. req_headers r (js ''Authorization'') = Some (js ''Bearer tok-1''))
           (drop (length (sent ?up)) (sent (snd (dashboardRun ?E ?acts (?d, ?up)))))"
    unfolding list_all_iff b .
  show ?thesis
    unfolding Let_def
    using c1 [unfolded tok'] c2 [unfolded tok] c3 c4 [unfolded tok] c5 [unfolded tok] c6
      c7 [unfolded b] c8 [unfolded b] c9 c10
    by (intro conjI)
qed

section \<open>The dashboard needs a user\<close>

text \<open>
  The current account is fetched by the token effect only: on startup and when the
  \<open>token\<close> state changes. The Dashboard's own requests log a failure and go on. So an
  account that stops resolving while the Dashboard is up keeps it: below, the backend
  resolves the \<open>/auth/me\<close> request of startup and rejects every later request; after
  the Dashboard's first load and a search, both rejected, the Dashboard is still
  rendered and the token is still stored.
\<close>

theorem deleted_account_keeps_dashboard:
  "AppRouter (startup
        \<lparr>BACKEND_URL = JStr (js ''http://localhost:8001''),
         server = (\<lambda>n r. if n = 0
                     then Inr (JObj [(js ''data'', JObj [(js ''username'', JStr (js ''Alice''))])])
                     else Inl (AxiosError (JObj [(js ''status'', JNum 401)])))\<rparr>
        [js ''Accept'' \<mapsto> js ''application/json, text/plain, */*'']
        [js ''token'' \<mapsto> js ''tok-1'']) = DashboardScreen
   \<and> AppRouter (snd (dashboardRun
      \<lparr>BACKEND_URL = JStr (js ''http://localhost:8001''),
         server = (\<lambda>n r. if n = 0
                     then Inr (JObj [(js ''data'', JObj [(js ''username'', JStr (js ''Alice''))])])
                     else Inl (AxiosError (JObj [(js ''status'', JNum 401)])))\<rparr>
      [Clear, Search]
      (\<lparr>dash_notes = JArr [], searchTerm = js ''milk'', dash_loading = True,
          searchLoading = False, editingNote = JNull, editContent = []\<rparr>,
       startup
        \<lparr>BACKEND_URL = JStr (js ''http://localhost:8001''),
         server = (\<lambda>n r. if n = 0
                     then Inr (JObj [(js ''data'', JObj [(js ''username'', JStr (js ''Alice''))])])
                     else Inl (AxiosError (JObj [(js ''status'', JNum 401)])))\<rparr>
        [js ''Accept'' \<mapsto> js ''application/json, text/plain, */*'']
        [js ''token'' \<mapsto> js ''tok-1'']))) = DashboardScreen
   \<and> length (sent (snd (dashboardRun
      \<lparr>BACKEND_URL = JStr (js ''http://localhost:8001''),
         server = (\<lambda>n r. if n = 0
                     then Inr (JObj [(js ''data'', JObj [(js ''username'', JStr (js ''Alice''))])])
                     else Inl (AxiosError (JObj [(js ''status'', JNum 401)])))\<rparr>
      [Clear, Search]
      (\<lparr>dash_notes = JArr [], searchTerm = js ''milk'', dash_loading = True,
          searchLoading = False, editingNote = JNull, editContent = []\<rparr>,
       startup
        \<lparr>BACKEND_URL = JStr (js ''http://localhost:8001''),
         server = (\<lambda>n r. if n = 0
                     then Inr (JObj [(js ''data'', JObj [(js ''username'', JStr (js ''Alice''))])])
                     else Inl (AxiosError (JObj [(js ''status'', JNum 401)])))\<rparr>
        [js ''Accept'' \<mapsto> js ''application/json, text/plain, */*'']
        [js ''token'' \<mapsto> js ''tok-1''])))) = 3
   \<and> server \<lparr>BACKEND_URL = JStr (js ''http://localhost:8001''),
         server = (\<lambda>n r. if n = 0
                     then Inr (JObj [(js ''data'', JObj [(js ''username'', JStr (js ''Alice''))])])
                     else Inl (AxiosError (JObj [(js ''status'', JNum 401)])))\<rparr> 1 (sent (snd (dashboardRun
      \<lparr>BACKEND_URL = JStr (js ''http://localhost:8001''),
         server = (\<lambda>n r. if n = 0
                     then Inr (JObj [(js ''data'', JObj [(js ''username'', JStr (js ''Alice''))])])
                     else Inl (AxiosError (JObj [(js ''status'', JNum 401)])))\<rparr>
      [Clear, Search]
      (\<lparr>dash_notes = JArr [], searchTerm = js ''milk'', dash_loading = True,
          searchLoading = False, editingNote = JNull, editContent = []\<rparr>,
       startup
        \<lparr>BACKEND_URL = JStr (js ''http://localhost:8001''),
         server = (\<lambda>n r. if n = 0
                     then Inr (JObj [(js ''data'', JObj [(js ''username'', JStr (js ''Alice''))])])
                     else Inl (AxiosError (JObj [(js ''status'', JNum 401)])))\<rparr>
        [js ''Accept'' \<mapsto> js ''application/json, text/plain, */*'']
        [js ''token'' \<mapsto> js ''tok-1'']))) ! 1) = Inl (AxiosError (JObj [(js ''status'', JNum 401)]))
   \<and> server \<lparr>BACKEND_URL = JStr (js ''http://localhost:8001''),
         server = (\<lambda>n r. if n = 0
                     then Inr (JObj [(js ''data'', JObj [(js ''username'', JStr (js ''Alice''))])])
                     else Inl (AxiosError (JObj [(js ''status'', JNum 401)])))\<rparr> 2 (sent (snd (dashboardRun
      \<lparr>BACKEND_URL = JStr (js ''http://localhost:8001''),
         server = (\<lambda>n r. if n = 0
                     then Inr (JObj [(js ''data'', JObj [(js ''username'', JStr (js ''Alice''))])])
                     else Inl (AxiosError (JObj [(js ''status'', JNum 401)])))\<rparr>
      [Clear, Search]
      (\<lparr>dash_notes = JArr [], searchTerm = js ''milk'', dash_loading = True,
          searchLoading = False, editingNote = JNull, editContent = []\<rparr>,
       startup
        \<lparr>BACKEND_URL = JStr (js ''http://localhost:8001''),
         server = (\<lambda>n r. if n = 0
                     then Inr (JObj [(js ''data'', JObj [(js ''username'', JStr (js ''Alice''))])])
                     else Inl (AxiosError (JObj [(js ''status'', JNum 401)])))\<rparr>
        [js ''Accept'' \<mapsto> js ''application/json, text/plain, */*'']
        [js ''token'' \<mapsto> js ''tok-1'']))) ! 2) = Inl (AxiosError (JObj [(js ''status'', JNum 401)]))
   \<and> dash_notes (fst (dashboardRun
      \<lparr>BACKEND_URL = JStr (js ''http://localhost:8001''),
         server = (\<lambda>n r. if n = 0
                     then Inr (JObj [(js ''data'', JObj [(js ''username'', JStr (js ''Alice''))])])
                     else Inl (AxiosError (JObj [(js ''status'', JNum 401)])))\<rparr>
      [Clear, Search]
      (\<lparr>dash_notes = JArr [], searchTerm = js ''milk'', dash_loading = True,
          searchLoading = False, editingNote = JNull, editContent = []\<rparr>,
       startup
        \<lparr>BACKEND_URL = JStr (js ''http://localhost:8001''),
         server = (\<lambda>n r. if n = 0
                     then Inr (JObj [(js ''data'', JObj [(js ''username'', JStr (js ''Alice''))])])
                     else Inl (AxiosError (JObj [(js ''status'', JNum 401)])))\<rparr>
        [js ''Accept'' \<mapsto> js ''application/json, text/plain, */*'']
        [js ''token'' \<mapsto> js ''tok-1'']))) = JArr []
   \<and> localStorage (snd (dashboardRun
      \<lparr>BACKEND_URL = JStr (js ''http://localhost:8001''),
         server = (\<lambda>n r. if n = 0
                     then Inr (JObj [(js ''data'', JObj [(js ''username'', JStr (js ''Alice''))])])
                     else Inl (AxiosError (JObj [(js ''status'', JNum 401)])))\<rparr>
      [Clear, Search]
      (\<lparr>dash_notes = JArr [], searchTerm = js ''milk'', dash_loading = True,
          searchLoading = False, editingNote = JNull, editContent = []\<rparr>,
       startup
        \<lparr>BACKEND_URL = JStr (js ''http://localhost:8001''),
         server = (\<lambda>n r. if n = 0
                     then Inr (JObj [(js ''data'', JObj [(js ''username'', JStr (js ''Alice''))])])
                     else Inl (AxiosError (JObj [(js ''status'', JNum 401)])))\<rparr>
        [js ''Accept'' \<mapsto> js ''application/json, text/plain, */*'']
        [js ''token'' \<mapsto> js ''tok-1'']))) (js ''token'') = Some (js ''tok-1'')"
  by (simp add: startup_def initialApp_def tokenEffect_def fetchUser_def axios_def Let_def
      readProp_def getProp_def handleSearch_def fetchNotes_def AppRouter_def js_def)

text \<open>
  C2, as the code has it: \<open>AppRouter\<close> renders the Dashboard only when \<open>loading\<close> is
  over and \<open>user\<close> is a non-null value. When the \<open>/auth/me\<close> request fails (it is
  rejected, or resolves with nothing to read \<open>data\<close> from), \<open>fetchUser\<close> logs out: the
  stored token and the \<open>Authorization\<close> header are removed, \<open>token\<close> and \<open>user\<close>
  are \<open>null\<close>, the Auth screen is rendered, and the token effect that follows changes
  nothing. The Dashboard is rendered after a fetch, and after startup, only when the
  \<open>/auth/me\<close> request resolved with the account as its \<open>data\<close>. The operations of the
  Dashboard change neither the screen nor \<open>user\<close>, \<open>token\<close> or \<open>localStorage\<close>,
  whatever the backend answers.
\<close>

theorem dashboard_requires_user:
  "(AppRouter st = DashboardScreen \<longrightarrow>
      \<not> loading st \<and> truthy (user st) \<and> user st \<noteq> JNull \<and> user st \<noteq> JUndefined)
   \<and> (server e (length (sent st))
         \<lparr>req_method = GET, req_url = API e @ js ''/auth/me'', req_params = [],
          req_data = JUndefined, req_headers = axios_common st\<rparr> = Inl err
       \<or> (server e (length (sent st))
         \<lparr>req_method = GET, req_url = API e @ js ''/auth/me'', req_params = [],
          req_data = JUndefined, req_headers = axios_common st\<rparr> = Inr response
          \<and> isNullish response)
      \<longrightarrow> AppRouter (fetchUser e st) = AuthScreen
        \<and> user (fetchUser e st) = JNull
        \<and> token (fetchUser e st) = JNull
        \<and> localStorage (fetchUser e st) (js ''token'') = None
        \<and> axios_common (fetchUser e st) (js ''Authorization'') = None
        \<and> tokenEffect e (fetchUser e st) = fetchUser e st)
   \<and> (AppRouter (fetchUser e st) = DashboardScreen \<longrightarrow>
        (\<exists>resolved.
           server e (length (sent st))
             \<lparr>req_method = GET, req_url = API e @ js ''/auth/me'', req_params = [],
              req_data = JUndefined, req_headers = axios_common st\<rparr> = Inr resolved
           \<and> \<not> isNullish resolved
           \<and> truthy (getProp resolved (js ''data''))
           \<and> user (fetchUser e st) = getProp resolved (js ''data'')))
   \<and> (AppRouter (startup e library_common storage) = DashboardScreen \<longrightarrow>
        (\<exists>t resolved.
           storage (js ''token'') = Some t \<and> t \<noteq> []
           \<and> server e 0
               \<lparr>req_method = GET, req_url = API e @ js ''/auth/me'', req_params = [],
                req_data = JUndefined,
                req_headers = library_common(js ''Content-Type'' \<mapsto> js ''application/json'',
                                             js ''Authorization'' \<mapsto> js ''Bearer '' @ t)\<rparr>
                = Inr resolved
           \<and> \<not> isNullish resolved
           \<and> truthy (getProp resolved (js ''data''))
           \<and> user (startup e library_common storage) = getProp resolved (js ''data'')))
   \<and> AppRouter (snd (dashboardRun e acts (d, st))) = AppRouter st
   \<and> user (snd (dashboardRun e acts (d, st))) = user st
   \<and> token (snd (dashboardRun e acts (d, st))) = token st
   \<and> localStorage (snd (dashboardRun e acts (d, st))) = localStorage st"
proof (intro conjI impI)
  assume "AppRouter st = DashboardScreen"
  then have "\<not> loading st \<and> truthy (user st)"
    by (simp add: AppRouter_def split: if_splits)
  then show "\<not> loading st" and "truthy (user st)" and "user st \<noteq> JNull"
    and "user st \<noteq> JUndefined"
    by auto
next
  assume "server e (length (sent st))
         \<lparr>req_method = GET, req_url = API e @ js ''/auth/me'', req_params = [],
          req_data = JUndefined, req_headers = axios_common st\<rparr> = Inl err
       \<or> (server e (length (sent st))
         \<lparr>req_method = GET, req_url = API e @ js ''/auth/me'', req_params = [],
          req_data = JUndefined, req_headers = axios_common st\<rparr> = Inr response
          \<and> isNullish response)"
  then have eq: "fetchUser e st =
           (logout (st\<lparr>sent := sent st @
              [\<lparr>req_method = GET, req_url = API e @ js ''/auth/me'', req_params = [],
                req_data = JUndefined, req_headers = axios_common st\<rparr>]\<rparr>))\<lparr>loading := False\<rparr>"
    by (rule fetchUser_failed)
  show "AppRouter (fetchUser e st) = AuthScreen"
    unfolding eq by (simp add: AppRouter_def logout_def)
  show "user (fetchUser e st) = JNull"
    unfolding eq by (simp add: logout_def)
  show "token (fetchUser e st) = JNull"
    unfolding eq by (simp add: logout_def)
  show "localStorage (fetchUser e st) (js ''token'') = None"
    unfolding eq by (simp add: logout_def)
  show "axios_common (fetchUser e st) (js ''Authorization'') = None"
    unfolding eq by (simp add: logout_def)
  show "tokenEffect e (fetchUser e st) = fetchUser e st"
    unfolding eq by (simp add: tokenEffect_def logout_def)
next
  assume "AppRouter (fetchUser e st) = DashboardScreen"
  then show "\<exists>resolved.
           server e (length (sent st))
             \<lparr>req_method = GET, req_url = API e @ js ''/auth/me'', req_params = [],
              req_data = JUndefined, req_headers = axios_common st\<rparr> = Inr resolved
           \<and> \<not> isNullish resolved
           \<and> truthy (getProp resolved (js ''data''))
           \<and> user (fetchUser e st) = getProp resolved (js ''data'')"
    by (rule fetchUser_Dashboard)
next
  assume up: "AppRouter (startup e library_common storage) = DashboardScreen"
  let ?i = "initialApp library_common storage"
  have tr: "truthy (token ?i)"
  proof (rule ccontr)
    assume "\<not> truthy (token ?i)"
    then have "AppRouter (startup e library_common storage) = AuthScreen"
      by (simp add: startup_def tokenEffect_def AppRouter_def initialApp_def)
    with up show False by simp
  qed
  then obtain t where t: "storage (js ''token'') = Some t" "t \<noteq> []"
    by (auto simp: initialApp_def split: option.splits)
  let ?j = "?i\<lparr>axios_common := (axios_common ?i)
                 (js ''Authorization'' \<mapsto> js ''Bearer '' @ ToString (token ?i))\<rparr>"
  have j: "sent ?j = []"
    "axios_common ?j = library_common(js ''Content-Type'' \<mapsto> js ''application/json'',
                                      js ''Authorization'' \<mapsto> js ''Bearer '' @ t)"
    using t by (simp_all add: initialApp_def)
  have s: "startup e library_common storage = fetchUser e ?j"
    using tr by (simp add: startup_def tokenEffect_def)
  from up have "AppRouter (fetchUser e ?j) = DashboardScreen"
    unfolding s .
  then have "\<exists>resolved.
           server e (length (sent ?j))
             \<lparr>req_method = GET, req_url = API e @ js ''/auth/me'', req_params = [],
              req_data = JUndefined, req_headers = axios_common ?j\<rparr> = Inr resolved
           \<and> \<not> isNullish resolved
           \<and> truthy (getProp resolved (js ''data''))
           \<and> user (fetchUser e ?j) = getProp resolved (js ''data'')"
    by (rule fetchUser_Dashboard)
  then show "\<exists>t resolved.
           storage (js ''token'') = Some t \<and> t \<noteq> []
           \<and> server e 0
               \<lparr>req_method = GET, req_url = API e @ js ''/auth/me'', req_params = [],
                req_data = JUndefined,
                req_headers = library_common(js ''Content-Type'' \<mapsto> js ''application/json'',
                                             js ''Authorization'' \<mapsto> js ''Bearer '' @ t)\<rparr>
                = Inr resolved
           \<and> \<not> isNullish resolved
           \<and> truthy (getProp resolved (js ''data''))
           \<and> user (startup e library_common storage) = getProp resolved (js ''data'')"
    unfolding s j using t by auto
next
  show "AppRouter (snd (dashboardRun e acts (d, st))) = AppRouter st"
    by (rule dashboardRun_AppRouter)
  show "user (snd (dashboardRun e acts (d, st))) = user st"
    by (simp add: dashboardRun_frame)
  show "token (snd (dashboardRun e acts (d, st))) = token st"
    by (simp add: dashboardRun_frame)
  show "localStorage (snd (dashboardRun e acts (d, st))) = localStorage st"
    by (simp add: dashboardRun_frame)
qed

theorem dashboard_requires_user_witness:
  "let Efail = \<lparr>BACKEND_URL = JStr (js ''http://localhost:8001''),
                server = (\<lambda>n r. Inl (AxiosError JUndefined))\<rparr>;
       Eok = \<lparr>BACKEND_URL = JStr (js ''http://localhost:8001''),
              server = (\<lambda>n r. Inr (JObj [(js ''data'',
                          JObj [(js ''username'', JStr (js ''Alice''))])]))\<rparr>;
       st = \<lparr>user = JObj [(js ''username'', JStr (js ''Alice''))],
             token = JStr (js ''tok-1''),
             loading = False,
             localStorage = [js ''token'' \<mapsto> js ''tok-1''],
             axios_common = [js ''Authorization'' \<mapsto> js ''Bearer tok-1''],
             sent = []\<rparr>;
       d = \<lparr>dash_notes = JArr [], searchTerm = js ''milk'', dash_loading = False,
            searchLoading = False, editingNote = JNull, editContent = []\<rparr>
   in AppRouter st = DashboardScreen
      \<and> truthy (user st)
      \<and> AppRouter (fetchUser Efail st) = AuthScreen
      \<and> user (fetchUser Efail st) = JNull
      \<and> token (fetchUser Efail st) = JNull
      \<and> localStorage (fetchUser Efail st) (js ''token'') = None
      \<and> axios_common (fetchUser Efail st) (js ''Authorization'') = None
      \<and> AppRouter (fetchUser Eok st) = DashboardScreen
      \<and> truthy (user (fetchUser Eok st))
      \<and> AppRouter (startup Eok [js ''Accept'' \<mapsto> js ''application/json, text/plain, */*''] [js ''token'' \<mapsto> js ''tok-1'']) = DashboardScreen
      \<and> truthy (user (startup Eok [js ''Accept'' \<mapsto> js ''application/json, text/plain, */*''] [js ''token'' \<mapsto> js ''tok-1'']))
      \<and> AppRouter (snd (dashboardRun Efail [Search] (d, st))) = DashboardScreen
      \<and> token (snd (dashboardRun Efail [Search] (d, st))) = JStr (js ''tok-1'')"
proof -
  let ?Efail = "\<lparr>BACKEND_URL = JStr (js ''http://localhost:8001''),
                server = (\<lambda>n r. Inl (AxiosError JUndefined))\<rparr>"
  let ?Eok = "\<lparr>BACKEND_URL = JStr (js ''http://localhost:8001''),
              server = (\<lambda>n r. Inr (JObj [(js ''data'',
                          JObj [(js ''username'', JStr (js ''Alice''))])]))\<rparr>"
  let ?st = "\<lparr>user = JObj [(js ''username'', JStr (js ''Alice''))],
             token = JStr (js ''tok-1''),
             loading = False,
             localStorage = [js ''token'' \<mapsto> js ''tok-1''],
             axios_common = [js ''Authorization'' \<mapsto> js ''Bearer tok-1''],
             sent = []\<rparr>"
  let ?d = "\<lparr>dash_notes = JArr [], searchTerm = js ''milk'', dash_loading = False,
            searchLoading = False, editingNote = JNull, editContent = []\<rparr>"
  let ?lib = "[js ''Accept'' \<mapsto> js ''application/json, text/plain, */*'']"
  let ?S = "[js ''token'' \<mapsto> js ''tok-1'']"
  note F = dashboard_requires_user
    [where e = ?Efail and st = ?st and err = "AxiosError JUndefined" and response = JNull
       and acts = "[Search]" and d = ?d and library_common = ?lib and storage = ?S]
  note R = dashboard_requires_user
    [where e = ?Eok and st = ?st and err = "AxiosError JUndefined" and response = JNull
       and acts = "[Search]" and d = ?d and library_common = ?lib and storage = ?S]
  have a: "AppRouter ?st = DashboardScreen"
    by (simp add: AppRouter_def)
  from F a have a': "truthy (user ?st)"
    by blast
  have fail: "server ?Efail (length (sent ?st))
         \<lparr>req_method = GET, req_url = API ?Efail @ js ''/auth/me'', req_params = [],
          req_data = JUndefined, req_headers = axios_common ?st\<rparr> = Inl (AxiosError JUndefined)
       \<or> (server ?Efail (length (sent ?st))
         \<lparr>req_method = GET, req_url = API ?Efail @ js ''/auth/me'', req_params = [],
          req_data = JUndefined, req_headers = axios_common ?st\<rparr> = Inr JNull
          \<and> isNullish JNull)"
    by simp
  from F fail have b: "AppRouter (fetchUser ?Efail ?st) = AuthScreen"
    "user (fetchUser ?Efail ?st) = JNull"
    "token (fetchUser ?Efail ?st) = JNull"
    "localStorage (fetchUser ?Efail ?st) (js ''token'') = None"
    "axios_common (fetchUser ?Efail ?st) (js ''Authorization'') = None"
    by blast+
  have ok: "AppRouter (fetchUser ?Eok ?st) = DashboardScreen"
    by (simp add: fetchUser_def axios_def Let_def readProp_def getProp_def AppRouter_def)
  from R ok obtain r1 where "truthy (getProp r1 (js ''data''))"
    "user (fetchUser ?Eok ?st) = getProp r1 (js ''data'')"
    by blast
  then have c: "truthy (user (fetchUser ?Eok ?st))"
    by simp
  have up: "AppRouter (startup ?Eok ?lib ?S) = DashboardScreen"
    by (simp add: startup_def initialApp_def tokenEffect_def fetchUser_def axios_def Let_def
        readProp_def getProp_def AppRouter_def js_def)
  from R up obtain r2 where "truthy (getProp r2 (js ''data''))"
    "user (startup ?Eok ?lib ?S) = getProp r2 (js ''data'')"
    by blast
  then have u: "truthy (user (startup ?Eok ?lib ?S))"
    by simp
  from F a have run: "AppRouter (snd (dashboardRun ?Efail [Search] (?d, ?st))) = DashboardScreen"
    by simp
  from F have "token (snd (dashboardRun ?Efail [Search] (?d, ?st))) = token ?st"
    by blast
  then have run': "token (snd (dashboardRun ?Efail [Search] (?d, ?st))) = JStr (js ''tok-1'')"
    by simp
  show ?thesis
    unfolding Let_def
    using a a' b ok c up u run run'
    by (intro conjI)
qed


text \<open>
  C10: the older and the current revision of \<open>login\<close> send the same request and, on
  success, store the token the same way; they differ in the expression that derives the
  failure message, and that expression has the same value in both. So the two functions
  agree on every input.
\<close>

theorem login_old_eq_login: "login_old e did pw st = login e did pw st"
  by (simp add: login_def login_old_def errorMessage_eq split: prod.splits sum.splits)

end
